theory Spec2Isabelle
  imports Main
begin

section \<open>Data model (src/server/countryRouter.ts, from line 72: countryHelpers)\<close>

text \<open>
  The interfaces \<^verbatim>\<open>Holiday\<close>, \<^verbatim>\<open>ZoneStatus\<close> and \<^verbatim>\<open>ComparisonResult\<close> of the source,
  field by field. An optional member (\<^verbatim>\<open>localName?: string\<close>) is an \<open>option\<close>.
  The nested object literals of \<^verbatim>\<open>ComparisonResult\<close> are records of their own.
  Two members are renamed because a record field is a global constant here:
  \<^verbatim>\<open>common[i].date\<close> is \<open>common_date\<close>, and \<^verbatim>\<open>timezones.A\<close>, \<^verbatim>\<open>timezones.B\<close>
  are \<open>tzA\<close>, \<open>tzB\<close>.
\<close>

record holiday =
  date :: string
  name :: string
  localName :: "string option"
  countryCode :: "string option"

record zone_status =
  zone :: string
  utc_offset :: string
  dst :: bool

record common_holiday =
  common_date :: string
  nameA :: string
  nameB :: string

record offset_overlap =
  offset :: string
  zonesA :: "string list"
  zonesB :: "string list"

record comparison_inputs =
  countryA :: string
  countryB :: string
  year :: int

record holiday_partition =
  common :: "common_holiday list"
  onlyA :: "holiday list"
  onlyB :: "holiday list"

record common_offset =
  hasOverlap :: bool
  overlaps :: "offset_overlap list"

record timezone_report =
  tzA :: "zone_status list"
  tzB :: "zone_status list"
  commonOffsetNow :: common_offset

record comparison_result =
  inputs :: comparison_inputs
  holidays :: holiday_partition
  timezones :: timezone_report

section \<open>The JavaScript \<^verbatim>\<open>Map\<close>: insertion-ordered, one entry per key\<close>

text \<open>
  A \<^verbatim>\<open>Map\<close> iterates in insertion order, and \<^verbatim>\<open>set\<close> on a key that is already
  present replaces the value and keeps the entry's place. The model is the list of
  entries in that order. Keys here are strings, on which the \<^verbatim>\<open>Map\<close>'s key equality
  is equality of the strings.
\<close>

type_synonym ('k, 'v) js_map = "('k \<times> 'v) list"

fun map_set :: "'k \<Rightarrow> 'v \<Rightarrow> ('k, 'v) js_map \<Rightarrow> ('k, 'v) js_map" where
  "map_set k v [] = [(k, v)]"
| "map_set k v ((k', v') # m) =
     (if k' = k then (k, v) # m else (k', v') # map_set k v m)"

definition map_get :: "'k \<Rightarrow> ('k, 'v) js_map \<Rightarrow> 'v option" where
  "map_get k m = map_of m k"

definition map_has :: "'k \<Rightarrow> ('k, 'v) js_map \<Rightarrow> bool" where
  "map_has k m = (map_of m k \<noteq> None)"

text \<open>\<^verbatim>\<open>new Map(pairs)\<close> sets the pairs one after the other into an empty map.\<close>

definition new_Map :: "('k \<times> 'v) list \<Rightarrow> ('k, 'v) js_map" where
  "new_Map kvs = foldl (\<lambda>m (k, v). map_set k v m) [] kvs"

definition entries :: "('k, 'v) js_map \<Rightarrow> ('k \<times> 'v) list" where
  "entries m = m"

section \<open>compareCountries: the holiday partition (lines 471-494)\<close>

text \<open>
  \<^verbatim>\<open>
  const holidaysAMap = new Map(holidaysA.map(h => [h.date, h]));
  const holidaysBMap = new Map(holidaysB.map(h => [h.date, h]));
  Array.from(holidaysAMap.entries()).forEach(([date, holiday]) => {
    if (holidaysBMap.has(date)) {
      common.push({ date, nameA: holiday.name, nameB: holidaysBMap.get(date)!.name });
    } else {
      onlyA.push(holiday);
    }
  });
  Array.from(holidaysBMap.entries()).forEach(([date, holiday]) => {
    if (!holidaysAMap.has(date)) { onlyB.push(holiday); }
  });
  \<close>
  Each \<^verbatim>\<open>forEach\<close> is a recursion over the entries that carries the arrays it pushes to.
\<close>

definition holidaysMap :: "holiday list \<Rightarrow> (string, holiday) js_map" where
  "holidaysMap hs = new_Map (map (\<lambda>h. (date h, h)) hs)"

fun forEachA :: "(string, holiday) js_map \<Rightarrow> (string \<times> holiday) list \<Rightarrow>
    common_holiday list \<times> holiday list \<Rightarrow> common_holiday list \<times> holiday list" where
  "forEachA bm [] acc = acc"
| "forEachA bm ((d, h) # es) (cs, oa) =
     (if map_has d bm
      then forEachA bm es
             (cs @ [\<lparr>common_date = d, nameA = name h, nameB = name (the (map_get d bm))\<rparr>], oa)
      else forEachA bm es (cs, oa @ [h]))"

fun forEachB :: "(string, holiday) js_map \<Rightarrow> (string \<times> holiday) list \<Rightarrow>
    holiday list \<Rightarrow> holiday list" where
  "forEachB am [] ob = ob"
| "forEachB am ((d, h) # es) ob =
     (if \<not> map_has d am then forEachB am es (ob @ [h]) else forEachB am es ob)"

definition compareHolidays :: "holiday list \<Rightarrow> holiday list \<Rightarrow> holiday_partition" where
  "compareHolidays holidaysA holidaysB =
     (let holidaysAMap = holidaysMap holidaysA;
          holidaysBMap = holidaysMap holidaysB;
          (cs, oa) = forEachA holidaysBMap (entries holidaysAMap) ([], []);
          ob = forEachB holidaysAMap (entries holidaysBMap) []
      in \<lparr>common = cs, onlyA = oa, onlyB = ob\<rparr>)"

section \<open>compareCountries: the offset overlap (lines 510-539)\<close>

text \<open>
  \<^verbatim>\<open>
  for (const status of validStatusesA) {
    const zones = offsetMapA.get(status.utc_offset) || [];
    zones.push(status.zone);
    offsetMapA.set(status.utc_offset, zones);
  }
  \<close>
  An array is truthy, so \<^verbatim>\<open>|| []\<close> applies exactly when the key is absent.
\<close>

fun groupByOffset :: "zone_status list \<Rightarrow> (string, string list) js_map \<Rightarrow>
    (string, string list) js_map" where
  "groupByOffset [] offsetMap = offsetMap"
| "groupByOffset (s # rest) offsetMap =
     (let zones = (case map_get (utc_offset s) offsetMap of Some zs \<Rightarrow> zs | None \<Rightarrow> [])
      in groupByOffset rest (map_set (utc_offset s) (zones @ [zone s]) offsetMap))"

text \<open>
  \<^verbatim>\<open>
  Array.from(offsetMapA.entries()).forEach(([offset, zonesA]) => {
    if (offsetMapB.has(offset)) {
      overlaps.push({ offset, zonesA, zonesB: offsetMapB.get(offset)! });
    }
  });
  \<close>
\<close>

fun forEachOffset :: "(string, string list) js_map \<Rightarrow> (string \<times> string list) list \<Rightarrow>
    offset_overlap list \<Rightarrow> offset_overlap list" where
  "forEachOffset offsetMapB [] ovs = ovs"
| "forEachOffset offsetMapB ((off, zsA) # es) ovs =
     (if map_has off offsetMapB
      then forEachOffset offsetMapB es
             (ovs @ [\<lparr>offset = off, zonesA = zsA, zonesB = the (map_get off offsetMapB)\<rparr>])
      else forEachOffset offsetMapB es ovs)"

definition compareOffsets :: "zone_status list \<Rightarrow> zone_status list \<Rightarrow> common_offset" where
  "compareOffsets validStatusesA validStatusesB =
     (let offsetMapA = groupByOffset validStatusesA [];
          offsetMapB = groupByOffset validStatusesB [];
          ovs = forEachOffset offsetMapB (entries offsetMapA) []
      in \<lparr>hasOverlap = (length ovs > 0), overlaps = ovs\<rparr>)"

section \<open>Errors\<close>

text \<open>
  The values the source can throw: \<^verbatim>\<open>fetch\<close> rejecting (the transport failed), the
  \<^verbatim>\<open>new Error(`HTTP ${status}: ${statusText}`)\<close> of fetchWithRetry, \<^verbatim>\<open>response.json()\<close>
  rejecting on a malformed body, a member read or call on a value that has no such member
  (TypeError), and \<^verbatim>\<open>Intl.DateTimeFormat\<close> refusing a time zone (RangeError).
\<close>

datatype js_error =
    FetchFailed string
  | HttpError nat string
  | SyntaxError
  | TypeError
  | RangeError

section \<open>getTimezones (lines 209-408)\<close>

definition COUNTRY_TIMEZONES :: "(string \<times> string list) list" where
  "COUNTRY_TIMEZONES =
    [(''AF'', [''Asia/Kabul'']),
     (''AL'', [''Europe/Tirane'']),
     (''DE'', [''Europe/Berlin'', ''Europe/Busingen'']),
     (''AD'', [''Europe/Andorra'']),
     (''AO'', [''Africa/Luanda'']),
     (''AG'', [''America/Antigua'']),
     (''SA'', [''Asia/Riyadh'']),
     (''DZ'', [''Africa/Algiers'']),
     (''AR'', [''America/Argentina/Buenos_Aires'', ''America/Argentina/Cordoba'', ''America/Argentina/Salta'', ''America/Argentina/Jujuy'', ''America/Argentina/Tucuman'', ''America/Argentina/Catamarca'', ''America/Argentina/La_Rioja'', ''America/Argentina/San_Juan'', ''America/Argentina/Mendoza'', ''America/Argentina/San_Luis'', ''America/Argentina/Rio_Gallegos'', ''America/Argentina/Ushuaia'']),
     (''AM'', [''Asia/Yerevan'']),
     (''AU'', [''Australia/Sydney'', ''Australia/Melbourne'', ''Australia/Brisbane'', ''Australia/Perth'', ''Australia/Adelaide'', ''Australia/Hobart'', ''Australia/Darwin'', ''Australia/Lindeman'', ''Australia/Lord_Howe'', ''Australia/Eucla'', ''Australia/Broken_Hill'']),
     (''AT'', [''Europe/Vienna'']),
     (''AZ'', [''Asia/Baku'']),
     (''BS'', [''America/Nassau'']),
     (''BH'', [''Asia/Bahrain'']),
     (''BD'', [''Asia/Dhaka'']),
     (''BB'', [''America/Barbados'']),
     (''BE'', [''Europe/Brussels'']),
     (''BZ'', [''America/Belize'']),
     (''BJ'', [''Africa/Porto-Novo'']),
     (''BY'', [''Europe/Minsk'']),
     (''MM'', [''Asia/Yangon'']),
     (''BO'', [''America/La_Paz'']),
     (''BA'', [''Europe/Sarajevo'']),
     (''BW'', [''Africa/Gaborone'']),
     (''BR'', [''America/Sao_Paulo'', ''America/Manaus'', ''America/Fortaleza'', ''America/Belem'', ''America/Recife'', ''America/Araguaina'', ''America/Maceio'', ''America/Bahia'', ''America/Campo_Grande'', ''America/Cuiaba'', ''America/Santarem'', ''America/Porto_Velho'', ''America/Boa_Vista'', ''America/Rio_Branco'', ''America/Noronha'']),
     (''BN'', [''Asia/Brunei'']),
     (''BG'', [''Europe/Sofia'']),
     (''BF'', [''Africa/Ouagadougou'']),
     (''BI'', [''Africa/Bujumbura'']),
     (''BT'', [''Asia/Thimphu'']),
     (''CV'', [''Atlantic/Cape_Verde'']),
     (''KH'', [''Asia/Phnom_Penh'']),
     (''CM'', [''Africa/Douala'']),
     (''CA'', [''America/Toronto'', ''America/Vancouver'', ''America/Halifax'', ''America/Winnipeg'', ''America/Edmonton'', ''America/St_Johns'', ''America/Regina'', ''America/Whitehorse'', ''America/Yellowknife'', ''America/Inuvik'', ''America/Dawson_Creek'', ''America/Fort_Nelson'', ''America/Creston'', ''America/Atikokan'', ''America/Blanc-Sablon'', ''America/Iqaluit'', ''America/Rankin_Inlet'', ''America/Resolute'', ''America/Cambridge_Bay'', ''America/Dawson'', ''America/Swift_Current'']),
     (''QA'', [''Asia/Qatar'']),
     (''TD'', [''Africa/Ndjamena'']),
     (''CL'', [''America/Santiago'', ''Pacific/Easter'']),
     (''CN'', [''Asia/Shanghai'', ''Asia/Urumqi'']),
     (''CY'', [''Asia/Nicosia'', ''Asia/Famagusta'']),
     (''CO'', [''America/Bogota'']),
     (''KM'', [''Indian/Comoro'']),
     (''CG'', [''Africa/Brazzaville'']),
     (''KP'', [''Asia/Pyongyang'']),
     (''KR'', [''Asia/Seoul'']),
     (''CI'', [''Africa/Abidjan'']),
     (''CR'', [''America/Costa_Rica'']),
     (''HR'', [''Europe/Zagreb'']),
     (''CU'', [''America/Havana'']),
     (''DK'', [''Europe/Copenhagen'']),
     (''DM'', [''America/Dominica'']),
     (''EC'', [''America/Guayaquil'', ''Pacific/Galapagos'']),
     (''EG'', [''Africa/Cairo'']),
     (''SV'', [''America/El_Salvador'']),
     (''AE'', [''Asia/Dubai'']),
     (''ER'', [''Africa/Asmara'']),
     (''SK'', [''Europe/Bratislava'']),
     (''SI'', [''Europe/Ljubljana'']),
     (''ES'', [''Europe/Madrid'', ''Africa/Ceuta'', ''Atlantic/Canary'']),
     (''US'', [''America/New_York'', ''America/Detroit'', ''America/Kentucky/Louisville'', ''America/Kentucky/Monticello'', ''America/Indiana/Indianapolis'', ''America/Indiana/Vincennes'', ''America/Indiana/Winamac'', ''America/Indiana/Marengo'', ''America/Indiana/Petersburg'', ''America/Indiana/Vevay'', ''America/Chicago'', ''America/Indiana/Tell_City'', ''America/Indiana/Knox'', ''America/Menominee'', ''America/North_Dakota/Center'', ''America/North_Dakota/New_Salem'', ''America/North_Dakota/Beulah'', ''America/Denver'', ''America/Boise'', ''America/Phoenix'', ''America/Los_Angeles'', ''America/Anchorage'', ''America/Juneau'', ''America/Sitka'', ''America/Metlakatla'', ''America/Yakutat'', ''America/Nome'', ''America/Adak'', ''Pacific/Honolulu'']),
     (''EE'', [''Europe/Tallinn'']),
     (''SZ'', [''Africa/Mbabane'']),
     (''ET'', [''Africa/Addis_Ababa'']),
     (''PH'', [''Asia/Manila'']),
     (''FI'', [''Europe/Helsinki'']),
     (''FJ'', [''Pacific/Fiji'']),
     (''FR'', [''Europe/Paris'']),
     (''GA'', [''Africa/Libreville'']),
     (''GM'', [''Africa/Banjul'']),
     (''GE'', [''Asia/Tbilisi'']),
     (''GH'', [''Africa/Accra'']),
     (''GD'', [''America/Grenada'']),
     (''GR'', [''Europe/Athens'']),
     (''GT'', [''America/Guatemala'']),
     (''GN'', [''Africa/Conakry'']),
     (''GW'', [''Africa/Bissau'']),
     (''GQ'', [''Africa/Malabo'']),
     (''GY'', [''America/Guyana'']),
     (''HT'', [''America/Port-au-Prince'']),
     (''HN'', [''America/Tegucigalpa'']),
     (''HU'', [''Europe/Budapest'']),
     (''IN'', [''Asia/Kolkata'']),
     (''ID'', [''Asia/Jakarta'', ''Asia/Pontianak'', ''Asia/Makassar'', ''Asia/Jayapura'']),
     (''IQ'', [''Asia/Baghdad'']),
     (''IR'', [''Asia/Tehran'']),
     (''IE'', [''Europe/Dublin'']),
     (''IS'', [''Atlantic/Reykjavik'']),
     (''MH'', [''Pacific/Majuro'', ''Pacific/Kwajalein'']),
     (''SB'', [''Pacific/Guadalcanal'']),
     (''IL'', [''Asia/Jerusalem'']),
     (''IT'', [''Europe/Rome'']),
     (''JM'', [''America/Jamaica'']),
     (''JP'', [''Asia/Tokyo'']),
     (''JO'', [''Asia/Amman'']),
     (''KZ'', [''Asia/Almaty'', ''Asia/Qyzylorda'', ''Asia/Qostanay'', ''Asia/Aqtobe'', ''Asia/Aqtau'', ''Asia/Atyrau'', ''Asia/Oral'']),
     (''KE'', [''Africa/Nairobi'']),
     (''KG'', [''Asia/Bishkek'']),
     (''KI'', [''Pacific/Tarawa'', ''Pacific/Enderbury'', ''Pacific/Kiritimati'']),
     (''KW'', [''Asia/Kuwait'']),
     (''LA'', [''Asia/Vientiane'']),
     (''LS'', [''Africa/Maseru'']),
     (''LV'', [''Europe/Riga'']),
     (''LB'', [''Asia/Beirut'']),
     (''LR'', [''Africa/Monrovia'']),
     (''LY'', [''Africa/Tripoli'']),
     (''LI'', [''Europe/Vaduz'']),
     (''LT'', [''Europe/Vilnius'']),
     (''LU'', [''Europe/Luxembourg'']),
     (''MK'', [''Europe/Skopje'']),
     (''MG'', [''Indian/Antananarivo'']),
     (''MY'', [''Asia/Kuala_Lumpur'', ''Asia/Kuching'']),
     (''MW'', [''Africa/Blantyre'']),
     (''MV'', [''Indian/Maldives'']),
     (''ML'', [''Africa/Bamako'']),
     (''MT'', [''Europe/Malta'']),
     (''MA'', [''Africa/Casablanca'']),
     (''MU'', [''Indian/Mauritius'']),
     (''MR'', [''Africa/Nouakchott'']),
     (''MX'', [''America/Mexico_City'', ''America/Cancun'', ''America/Merida'', ''America/Monterrey'', ''America/Matamoros'', ''America/Mazatlan'', ''America/Chihuahua'', ''America/Ojinaga'', ''America/Hermosillo'', ''America/Tijuana'', ''America/Bahia_Banderas'']),
     (''FM'', [''Pacific/Chuuk'', ''Pacific/Pohnpei'', ''Pacific/Kosrae'']),
     (''MD'', [''Europe/Chisinau'']),
     (''MC'', [''Europe/Monaco'']),
     (''MN'', [''Asia/Ulaanbaatar'', ''Asia/Hovd'', ''Asia/Choibalsan'']),
     (''ME'', [''Europe/Podgorica'']),
     (''MZ'', [''Africa/Maputo'']),
     (''NA'', [''Africa/Windhoek'']),
     (''NR'', [''Pacific/Nauru'']),
     (''NP'', [''Asia/Kathmandu'']),
     (''NI'', [''America/Managua'']),
     (''NE'', [''Africa/Niamey'']),
     (''NG'', [''Africa/Lagos'']),
     (''NO'', [''Europe/Oslo'']),
     (''NZ'', [''Pacific/Auckland'', ''Pacific/Chatham'']),
     (''OM'', [''Asia/Muscat'']),
     (''NL'', [''Europe/Amsterdam'']),
     (''PK'', [''Asia/Karachi'']),
     (''PW'', [''Pacific/Palau'']),
     (''PA'', [''America/Panama'']),
     (''PG'', [''Pacific/Port_Moresby'', ''Pacific/Bougainville'']),
     (''PY'', [''America/Asuncion'']),
     (''PE'', [''America/Lima'']),
     (''PL'', [''Europe/Warsaw'']),
     (''PT'', [''Europe/Lisbon'', ''Atlantic/Madeira'', ''Atlantic/Azores'']),
     (''GB'', [''Europe/London'']),
     (''CF'', [''Africa/Bangui'']),
     (''CZ'', [''Europe/Prague'']),
     (''CD'', [''Africa/Kinshasa'', ''Africa/Lubumbashi'']),
     (''DO'', [''America/Santo_Domingo'']),
     (''RW'', [''Africa/Kigali'']),
     (''RO'', [''Europe/Bucharest'']),
     (''RU'', [''Europe/Moscow'', ''Europe/Kaliningrad'', ''Europe/Simferopol'', ''Europe/Volgograd'', ''Europe/Kirov'', ''Europe/Astrakhan'', ''Europe/Samara'', ''Europe/Ulyanovsk'', ''Asia/Yekaterinburg'', ''Asia/Omsk'', ''Asia/Novosibirsk'', ''Asia/Barnaul'', ''Asia/Tomsk'', ''Asia/Novokuznetsk'', ''Asia/Krasnoyarsk'', ''Asia/Irkutsk'', ''Asia/Chita'', ''Asia/Yakutsk'', ''Asia/Khandyga'', ''Asia/Vladivostok'', ''Asia/Ust-Nera'', ''Asia/Magadan'', ''Asia/Sakhalin'', ''Asia/Srednekolymsk'', ''Asia/Kamchatka'', ''Asia/Anadyr'']),
     (''WS'', [''Pacific/Apia'']),
     (''KN'', [''America/St_Kitts'']),
     (''SM'', [''Europe/San_Marino'']),
     (''VC'', [''America/St_Vincent'']),
     (''LC'', [''America/St_Lucia'']),
     (''ST'', [''Africa/Sao_Tome'']),
     (''SN'', [''Africa/Dakar'']),
     (''RS'', [''Europe/Belgrade'']),
     (''SC'', [''Indian/Mahe'']),
     (''SL'', [''Africa/Freetown'']),
     (''SG'', [''Asia/Singapore'']),
     (''SY'', [''Asia/Damascus'']),
     (''SO'', [''Africa/Mogadishu'']),
     (''LK'', [''Asia/Colombo'']),
     (''ZA'', [''Africa/Johannesburg'']),
     (''SD'', [''Africa/Khartoum'']),
     (''SS'', [''Africa/Juba'']),
     (''SE'', [''Europe/Stockholm'']),
     (''CH'', [''Europe/Zurich'']),
     (''SR'', [''America/Paramaribo'']),
     (''TH'', [''Asia/Bangkok'']),
     (''TZ'', [''Africa/Dar_es_Salaam'']),
     (''TJ'', [''Asia/Dushanbe'']),
     (''TL'', [''Asia/Dili'']),
     (''TG'', [''Africa/Lome'']),
     (''TO'', [''Pacific/Tongatapu'']),
     (''TT'', [''America/Port_of_Spain'']),
     (''TN'', [''Africa/Tunis'']),
     (''TM'', [''Asia/Ashgabat'']),
     (''TR'', [''Europe/Istanbul'']),
     (''TV'', [''Pacific/Funafuti'']),
     (''UA'', [''Europe/Kiev'', ''Europe/Uzhgorod'', ''Europe/Zaporozhye'']),
     (''UG'', [''Africa/Kampala'']),
     (''UY'', [''America/Montevideo'']),
     (''UZ'', [''Asia/Samarkand'', ''Asia/Tashkent'']),
     (''VU'', [''Pacific/Efate'']),
     (''VA'', [''Europe/Vatican'']),
     (''VE'', [''America/Caracas'']),
     (''VN'', [''Asia/Ho_Chi_Minh'']),
     (''YE'', [''Asia/Aden'']),
     (''DJ'', [''Africa/Djibouti'']),
     (''ZM'', [''Africa/Lusaka'']),
     (''ZW'', [''Africa/Harare''])]"

text \<open>
  \<^verbatim>\<open>return COUNTRY_TIMEZONES[countryCode] || [];\<close>
  \<^verbatim>\<open>COUNTRY_TIMEZONES\<close> is an object literal, so a member read that finds no own property
  continues on \<^verbatim>\<open>Object.prototype\<close>. The names below are the members every object
  inherits from it; each of them is a function or an object, hence truthy, and is what the
  member read returns. An array is truthy too, so \<^verbatim>\<open>|| []\<close> applies only when the read
  gives \<^verbatim>\<open>undefined\<close>.
\<close>

definition objectPrototypeMembers :: "string list" where
  "objectPrototypeMembers =
     [''constructor'', ''__defineGetter__'', ''__defineSetter__'', ''hasOwnProperty'',
      ''__lookupGetter__'', ''__lookupSetter__'', ''isPrototypeOf'', ''propertyIsEnumerable'',
      ''toString'', ''valueOf'', ''__proto__'', ''toLocaleString'']"

datatype timezones_value = ZoneArray "string list" | Inherited string

definition getTimezones :: "string \<Rightarrow> timezones_value" where
  "getTimezones code =
     (case map_of COUNTRY_TIMEZONES code of
        Some zs \<Rightarrow> ZoneArray zs
      | None \<Rightarrow> if code \<in> set objectPrototypeMembers then Inherited code else ZoneArray [])"

section \<open>compareCountries (lines 459-561)\<close>

text \<open>
  The function awaits getHolidays for both countries and getZoneStatus for every zone
  (\<^verbatim>\<open>Promise.all\<close>), then computes without a further suspension. None of the awaited
  calls rejects, so the values they settle to are parameters here: \<open>holidaysA\<close>,
  \<open>holidaysB\<close>, and for each side a function giving, for the i-th zone of the list, what
  \<^verbatim>\<open>getZoneStatus\<close> of it settled to (\<open>None\<close> for \<^verbatim>\<open>null\<close>).
  \<^verbatim>\<open>zonesA.map(...)\<close> on a value that is not an array throws a TypeError, which rejects
  the promise compareCountries returns: the result \<open>Inl\<close>.
\<close>

definition awaitStatuses :: "(nat \<Rightarrow> string \<Rightarrow> zone_status option) \<Rightarrow> string list \<Rightarrow>
    zone_status option list" where
  "awaitStatuses settled zones = map (\<lambda>(i, z). settled i z) (enumerate 0 zones)"

definition filterValid :: "zone_status option list \<Rightarrow> zone_status list" where
  "filterValid statuses = map the (filter (\<lambda>s. s \<noteq> None) statuses)"

definition compareCountries :: "string \<Rightarrow> string \<Rightarrow> int \<Rightarrow> holiday list \<Rightarrow> holiday list \<Rightarrow>
    (nat \<Rightarrow> string \<Rightarrow> zone_status option) \<Rightarrow> (nat \<Rightarrow> string \<Rightarrow> zone_status option) \<Rightarrow>
    js_error + comparison_result" where
  "compareCountries cA cB yr holidaysA holidaysB settledA settledB =
     (let part = compareHolidays holidaysA holidaysB in
      case getTimezones cA of
        Inherited m \<Rightarrow> Inl TypeError
      | ZoneArray zsA \<Rightarrow>
         (case getTimezones cB of
            Inherited m \<Rightarrow> Inl TypeError
          | ZoneArray zsB \<Rightarrow>
             (let statusesA = awaitStatuses settledA zsA;
                  statusesB = awaitStatuses settledB zsB;
                  validStatusesA = filterValid statusesA;
                  validStatusesB = filterValid statusesB
              in Inr \<lparr>inputs = \<lparr>countryA = cA, countryB = cB, year = yr\<rparr>,
                      holidays = part,
                      timezones = \<lparr>tzA = validStatusesA, tzB = validStatusesB,
                                   commonOffsetNow = compareOffsets validStatusesA validStatusesB\<rparr>\<rparr>)))"

section \<open>The world the server runs in\<close>

text \<open>
  The module's state and its surroundings, threaded through every effectful function:
  \<^item> \<open>cache\<close>: the module-level \<^verbatim>\<open>const cache = new Map<string, CacheEntry<any>>()\<close>. It is
    never iterated, so it is a map from keys to entries. \<open>'v\<close> stands for \<^verbatim>\<open>any\<close>:
    getHolidays reads and writes \<^verbatim>\<open>Holiday[]\<close> entries under keys \<^verbatim>\<open>holidays:...\<close>,
    getZoneStatus \<^verbatim>\<open>ZoneStatus\<close> entries under keys \<^verbatim>\<open>zone:...\<close>, and no key of
    the one kind is a key of the other;
  \<^item> \<open>clock\<close>: what \<^verbatim>\<open>Date.now()\<close> returns, in milliseconds;
  \<^item> \<open>network\<close>: how the outside answers the k-th \<^verbatim>\<open>fetch\<close> the process issues, by
    URL, and \<open>latency\<close>: how long that answer takes. \<open>'b\<close> is the type of a decoded
    JSON body;
  \<^item> \<open>tzdata\<close>: the runtime's own time-zone database, read by \<^verbatim>\<open>Intl.DateTimeFormat\<close>:
    the local date of a zone at an instant and the name the runtime prints for the zone's
    offset, \<open>None\<close> for an identifier it does not know;
  \<^item> \<open>requests\<close>, \<open>sleeps\<close>, \<open>console\<close>: the URLs fetched, the timer delays awaited and
    the \<^verbatim>\<open>console.error\<close> calls so far, oldest first.
\<close>

record 'v cache_entry =
  data :: 'v
  timestamp :: int

datatype 'b response = Response (status: nat) (statusText: string) (json: "'b option")

datatype 'b attempt = Rejects string | Resolves "'b response"

record local_time =
  local_month :: nat
  local_day :: nat
  local_year :: nat
  longOffsetName :: string

record ('v, 'b) world =
  cache :: "string \<rightharpoonup> 'v cache_entry"
  clock :: int
  network :: "nat \<Rightarrow> string \<Rightarrow> 'b attempt"
  latency :: "nat \<Rightarrow> nat"
  tzdata :: "string \<Rightarrow> int \<Rightarrow> local_time option"
  requests :: "string list"
  sleeps :: "int list"
  console :: "(string \<times> js_error option) list"

section \<open>The TTL cache (lines 74-109)\<close>

definition CACHE_TTL_HOLIDAYS :: int where
  "CACHE_TTL_HOLIDAYS = 24 * 60 * 60 * 1000"

definition CACHE_TTL_TIMEZONES :: int where
  "CACHE_TTL_TIMEZONES = 60 * 60 * 1000"

fun join :: "string \<Rightarrow> string list \<Rightarrow> string" where
  "join sep [] = []"
| "join sep [x] = x"
| "join sep (x # y # xs) = x @ sep @ join sep (y # xs)"

definition getCacheKey :: "string \<Rightarrow> string list \<Rightarrow> string" where
  "getCacheKey prefix args = prefix @ '':'' @ join '':'' args"

text \<open>
  \<^verbatim>\<open>
  const entry = cache.get(key);
  if (!entry) return null;
  const now = Date.now();
  if (now - entry.timestamp > ttl) { cache.delete(key); return null; }
  return entry.data as T;
  \<close>
\<close>

definition getFromCache :: "string \<Rightarrow> int \<Rightarrow> ('v, 'b) world \<Rightarrow> 'v option \<times> ('v, 'b) world" where
  "getFromCache key ttl w =
     (case cache w key of
        None \<Rightarrow> (None, w)
      | Some entry \<Rightarrow>
          (let now = clock w in
           if now - timestamp entry > ttl
           then (None, w\<lparr>cache := (cache w)(key := None)\<rparr>)
           else (Some (data entry), w)))"

definition setCache :: "string \<Rightarrow> 'v \<Rightarrow> ('v, 'b) world \<Rightarrow> ('v, 'b) world" where
  "setCache key d w = w\<lparr>cache := (cache w)(key \<mapsto> \<lparr>data = d, timestamp = clock w\<rparr>)\<rparr>"

section \<open>fetchWithRetry (lines 111-131)\<close>

text \<open>
  \<^verbatim>\<open>await fetch(url)\<close>: the request is recorded, the answer is the network's for this
  request, and the clock has advanced by the time the answer took.
\<close>

definition fetch :: "string \<Rightarrow> ('v, 'b) world \<Rightarrow> 'b attempt \<times> ('v, 'b) world" where
  "fetch url w =
     (let k = length (requests w)
      in (network w k url,
          w\<lparr>requests := requests w @ [url], clock := clock w + int (latency w k)\<rparr>))"

definition ok :: "'b response \<Rightarrow> bool" where
  "ok r = (200 \<le> status r \<and> status r \<le> 299)"

text \<open>
  The body of the \<^verbatim>\<open>try\<close> block, on the answer \<^verbatim>\<open>fetch\<close> gave:
  \<^verbatim>\<open>
  const response = await fetch(url);
  if (!response.ok) { throw new Error(`HTTP ${response.status}: ${response.statusText}`); }
  return await response.json();
  \<close>
\<close>

definition tryBody :: "'b attempt \<Rightarrow> js_error + 'b" where
  "tryBody a =
     (case a of
        Rejects msg \<Rightarrow> Inl (FetchFailed msg)
      | Resolves response \<Rightarrow>
          if \<not> ok response then Inl (HttpError (status response) (statusText response))
          else (case json response of None \<Rightarrow> Inl SyntaxError | Some body \<Rightarrow> Inr body))"

text \<open>\<^verbatim>\<open>await new Promise(resolve => setTimeout(resolve, ms))\<close>\<close>

definition sleep :: "int \<Rightarrow> ('v, 'b) world \<Rightarrow> ('v, 'b) world" where
  "sleep ms w = w\<lparr>clock := clock w + ms, sleeps := sleeps w @ [ms]\<rparr>"

text \<open>
  \<^verbatim>\<open>
  let lastError: Error | null = null;
  for (let i = 0; i <= maxRetries; i++) {
    try { ... } catch (error) {
      lastError = error as Error;
      if (i < maxRetries) { await new Promise(resolve => setTimeout(resolve, 1000 * (i + 1))); }
    }
  }
  throw lastError;
  \<close>
  The loop is a recursion on \<open>i\<close> that carries \<open>lastError\<close>; what is thrown is \<open>Inl\<close>.
\<close>

function fetchWithRetry_loop :: "string \<Rightarrow> nat \<Rightarrow> nat \<Rightarrow> js_error option \<Rightarrow> ('v, 'b) world \<Rightarrow>
    (js_error option + 'b) \<times> ('v, 'b) world" where
  "fetchWithRetry_loop url maxRetries i lastError w =
     (if i \<le> maxRetries then
        (case fetch url w of
           (a, w1) \<Rightarrow>
             (case tryBody a of
                Inr body \<Rightarrow> (Inr body, w1)
              | Inl error \<Rightarrow>
                  fetchWithRetry_loop url maxRetries (i + 1) (Some error)
                    (if i < maxRetries then sleep (1000 * (int i + 1)) w1 else w1)))
      else (Inl lastError, w))"
  by pat_completeness auto
termination
  by (relation "measure (\<lambda>(url, maxRetries, i, lastError, w). maxRetries + 1 - i)") auto

declare fetchWithRetry_loop.simps [simp del]

definition fetchWithRetry :: "string \<Rightarrow> nat \<Rightarrow> ('v, 'b) world \<Rightarrow>
    (js_error option + 'b) \<times> ('v, 'b) world" where
  "fetchWithRetry url maxRetries w = fetchWithRetry_loop url maxRetries 0 None w"

section \<open>Numbers as strings\<close>

text \<open>
  \<^verbatim>\<open>year.toString()\<close> and \<^verbatim>\<open>${year}\<close> on an integer: its decimal digits, with a minus
  sign when negative (the router admits the integers from 2000 to 2100).
\<close>

definition digit :: "nat \<Rightarrow> char" where
  "digit n = ''0123456789'' ! (n mod 10)"

function nat_toString :: "nat \<Rightarrow> string" where
  "nat_toString n = (if n < 10 then [digit n] else nat_toString (n div 10) @ [digit n])"
  by pat_completeness auto
termination
  by (relation "measure id") auto

declare nat_toString.simps [simp del]

definition number_toString :: "int \<Rightarrow> string" where
  "number_toString n = (if n < 0 then ''-'' @ nat_toString (nat (- n)) else nat_toString (nat n))"

section \<open>getHolidays (lines 183-206)\<close>

text \<open>
  The decoded body of the holiday source has type \<^verbatim>\<open>any\<close> and is used as
  \<^verbatim>\<open>data.map((h: any) => ({date: h.date, name: h.name, localName: h.localName,
  countryCode: h.countryCode}))\<close>. A JSON value that is not an array has no \<^verbatim>\<open>map\<close>, so
  the call throws a TypeError (\<open>NotAnArray\<close>). In an array, a \<^verbatim>\<open>null\<close> element makes
  \<^verbatim>\<open>h.date\<close> throw a TypeError (\<open>None\<close>); any other element is an object whose four
  members have the types of the \<^verbatim>\<open>Holiday\<close> fields they are copied to, and which may
  have further members, which the callback drops.
\<close>

datatype 'e holidays_body = NotAnArray | JsonArray "'e option list"

fun dataMap :: "'x holiday_scheme option list \<Rightarrow> js_error + holiday list" where
  "dataMap [] = Inr []"
| "dataMap (None # rest) = Inl TypeError"
| "dataMap (Some h # rest) =
     (case dataMap rest of
        Inl e \<Rightarrow> Inl e
      | Inr hs \<Rightarrow> Inr (\<lparr>date = date h, name = name h, localName = localName h,
                        countryCode = countryCode h\<rparr> # hs))"

definition holidaysUrl :: "int \<Rightarrow> string \<Rightarrow> string" where
  "holidaysUrl yr code =
     ''https://date.nager.at/api/v3/PublicHolidays/'' @ number_toString yr @ ''/'' @ code"

definition consoleError :: "string \<Rightarrow> js_error option \<Rightarrow> ('v, 'b) world \<Rightarrow> ('v, 'b) world" where
  "consoleError msg e w = w\<lparr>console := console w @ [(msg, e)]\<rparr>"

text \<open>
  \<^verbatim>\<open>
  const cacheKey = getCacheKey("holidays", countryCode, year.toString());
  const cached = getFromCache<Holiday[]>(cacheKey, CACHE_TTL.HOLIDAYS);
  if (cached) return cached;
  try {
    const data = await fetchWithRetry(`https://date.nager.at/api/v3/PublicHolidays/${year}/${countryCode}`);
    const holidays: Holiday[] = data.map(...);
    setCache(cacheKey, holidays);
    return holidays;
  } catch (error) {
    console.error(`Error fetching holidays for ${countryCode}:`, error);
    return [];
  }
  \<close>
  An array, also the empty one, is truthy: \<^verbatim>\<open>if (cached)\<close> holds for every cached list.
\<close>

definition getHolidays :: "string \<Rightarrow> int \<Rightarrow> (holiday list, 'x holiday_scheme holidays_body) world \<Rightarrow>
    holiday list \<times> (holiday list, 'x holiday_scheme holidays_body) world" where
  "getHolidays code yr w =
     (let cacheKey = getCacheKey ''holidays'' [code, number_toString yr] in
      case getFromCache cacheKey CACHE_TTL_HOLIDAYS w of
        (Some cached, w1) \<Rightarrow> (cached, w1)
      | (None, w1) \<Rightarrow>
          (case fetchWithRetry (holidaysUrl yr code) 2 w1 of
             (Inl error, w2) \<Rightarrow>
               ([], consoleError (''Error fetching holidays for '' @ code @ '':'') error w2)
           | (Inr NotAnArray, w2) \<Rightarrow>
               ([], consoleError (''Error fetching holidays for '' @ code @ '':'') (Some TypeError) w2)
           | (Inr (JsonArray elems), w2) \<Rightarrow>
               (case dataMap elems of
                  Inl error \<Rightarrow>
                    ([], consoleError (''Error fetching holidays for '' @ code @ '':'') (Some error) w2)
                | Inr hs \<Rightarrow> (hs, setCache cacheKey hs w2))))"

section \<open>getZoneStatus (lines 410-456)\<close>

text \<open>
  The decoded body of the time service has type \<^verbatim>\<open>any\<close> and is read as
  \<^verbatim>\<open>data.timezone\<close>, \<^verbatim>\<open>data.utc_offset\<close> and \<^verbatim>\<open>data.dst || false\<close>. On \<^verbatim>\<open>null\<close>
  the first read throws a TypeError (\<open>JsonNull\<close>); otherwise the body is an object whose
  members have the types of the \<^verbatim>\<open>ZoneStatus\<close> fields they are stored in:
  \<open>TimeObject timezone utc_offset dst\<close>, where an absent \<^verbatim>\<open>dst\<close> reads as
  \<^verbatim>\<open>undefined\<close>, which \<^verbatim>\<open>|| false\<close> turns into \<^verbatim>\<open>false\<close>.
\<close>

datatype time_body = JsonNull | TimeObject string string "bool option"

definition zoneUrl :: "string \<Rightarrow> string" where
  "zoneUrl z = ''http://worldtimeapi.org/api/timezone/'' @ z"

text \<open>
  \<^verbatim>\<open>Intl.DateTimeFormat("en-US", {timeZone: zone, timeZoneName: "longOffset"})\<close>: the
  constructor throws a RangeError for a zone the runtime does not know.
  \<^verbatim>\<open>formatToParts\<close> gives the numeric date and the zone's name, as typed parts. The name
  is what the runtime prints for the zone's offset in the \<^verbatim>\<open>longOffset\<close> style, such as
  \<^verbatim>\<open>GMT-07:00\<close>; no code of the repository produces it, so it is read from the world
  (\<open>longOffsetName\<close>) as it is.
\<close>

definition formatToParts :: "string \<Rightarrow> ('v, 'b) world \<Rightarrow> js_error + (string \<times> string) list" where
  "formatToParts z w =
     (case tzdata w z (clock w) of
        None \<Rightarrow> Inl RangeError
      | Some t \<Rightarrow>
          Inr [(''month'', nat_toString (local_month t)), (''literal'', ''/''),
               (''day'', nat_toString (local_day t)), (''literal'', ''/''),
               (''year'', nat_toString (local_year t)), (''literal'', '', ''),
               (''timeZoneName'', longOffsetName t)])"

text \<open>\<^verbatim>\<open>s.replace(pat, rep)\<close> with a string pattern: the first occurrence only.\<close>

fun replace :: "string \<Rightarrow> string \<Rightarrow> string \<Rightarrow> string" where
  "replace pat rep [] = (if pat = [] then rep else [])"
| "replace pat rep (c # s) =
     (if take (length pat) (c # s) = pat then rep @ drop (length pat) (c # s)
      else c # replace pat rep s)"

text \<open>
  The \<^verbatim>\<open>catch\<close> block of getZoneStatus:
  \<^verbatim>\<open>
  try {
    const now = new Date();
    const formatter = new Intl.DateTimeFormat("en-US", {timeZone: zone, timeZoneName: "longOffset"});
    const parts = formatter.formatToParts(now);
    const offsetPart = parts.find(p => p.type === "timeZoneName");
    if (offsetPart) {
      const offset = offsetPart.value.replace("GMT", "");
      const zoneStatus: ZoneStatus = { zone, utc_offset: offset, dst: false };
      setCache(cacheKey, zoneStatus);
      return zoneStatus;
    }
  } catch (fallbackError) {
    console.error(`Error getting zone status for ${zone}:`, fallbackError);
  }
  return null;
  \<close>
\<close>

definition localFallback :: "string \<Rightarrow> string \<Rightarrow> (zone_status, 'b) world \<Rightarrow>
    zone_status option \<times> (zone_status, 'b) world" where
  "localFallback z cacheKey w =
     (case formatToParts z w of
        Inl fallbackError \<Rightarrow>
          (None, consoleError (''Error getting zone status for '' @ z @ '':'') (Some fallbackError) w)
      | Inr parts \<Rightarrow>
          (case find (\<lambda>p. fst p = ''timeZoneName'') parts of
             None \<Rightarrow> (None, w)
           | Some offsetPart \<Rightarrow>
               (let off = replace ''GMT'' '''' (snd offsetPart);
                    zoneStatus = \<lparr>zone = z, utc_offset = off, dst = False\<rparr>
                in (Some zoneStatus, setCache cacheKey zoneStatus w))))"

text \<open>
  \<^verbatim>\<open>
  const cacheKey = getCacheKey("zone", zone);
  const cached = getFromCache<ZoneStatus>(cacheKey, CACHE_TTL.TIMEZONES);
  if (cached) return cached;
  try {
    const data = await fetchWithRetry(`http://worldtimeapi.org/api/timezone/${zone}`);
    const zoneStatus: ZoneStatus = { zone: data.timezone, utc_offset: data.utc_offset, dst: data.dst || false };
    setCache(cacheKey, zoneStatus);
    return zoneStatus;
  } catch (error) { ... }
  \<close>
\<close>

definition getZoneStatus :: "string \<Rightarrow> (zone_status, time_body) world \<Rightarrow>
    zone_status option \<times> (zone_status, time_body) world" where
  "getZoneStatus z w =
     (let cacheKey = getCacheKey ''zone'' [z] in
      case getFromCache cacheKey CACHE_TTL_TIMEZONES w of
        (Some cached, w1) \<Rightarrow> (Some cached, w1)
      | (None, w1) \<Rightarrow>
          (case fetchWithRetry (zoneUrl z) 2 w1 of
             (Inl error, w2) \<Rightarrow> localFallback z cacheKey w2
           | (Inr JsonNull, w2) \<Rightarrow> localFallback z cacheKey w2
           | (Inr (TimeObject tz off d), w2) \<Rightarrow>
               (let zoneStatus = \<lparr>zone = tz, utc_offset = off,
                                  dst = (case d of Some b \<Rightarrow> b | None \<Rightarrow> False)\<rparr>
                in (Some zoneStatus, setCache cacheKey zoneStatus w2))))"



section \<open>Example inputs\<close>

text \<open>
  Concrete inputs on which the theorems below are instantiated: two holiday lists (the
  first with a date listed twice), and what the zone statuses of two countries settled to.
\<close>

definition exHolidaysUS :: "holiday list" where
  "exHolidaysUS =
     [\<lparr>date = ''2025-01-01'', name = ''New Year'', localName = None, countryCode = Some ''US''\<rparr>,
      \<lparr>date = ''2025-07-04'', name = ''Independence Day'', localName = None, countryCode = Some ''US''\<rparr>,
      \<lparr>date = ''2025-01-01'', name = ''New Year (observed)'', localName = None, countryCode = Some ''US''\<rparr>]"

definition exHolidaysCO :: "holiday list" where
  "exHolidaysCO =
     [\<lparr>date = ''2025-01-01'', name = ''Ano Nuevo'', localName = None, countryCode = Some ''CO''\<rparr>,
      \<lparr>date = ''2025-07-20'', name = ''Dia de la Independencia'', localName = None, countryCode = Some ''CO''\<rparr>]"

definition exSettledUS :: "nat \<Rightarrow> string \<Rightarrow> zone_status option" where
  "exSettledUS i z =
     (if z = ''America/New_York'' \<or> z = ''America/Detroit''
      then Some \<lparr>zone = z, utc_offset = ''-05:00'', dst = False\<rparr>
      else if z = ''America/Chicago''
      then Some \<lparr>zone = z, utc_offset = ''-06:00'', dst = False\<rparr>
      else None)"

definition exSettledCO :: "nat \<Rightarrow> string \<Rightarrow> zone_status option" where
  "exSettledCO i z = Some \<lparr>zone = z, utc_offset = ''-05:00'', dst = False\<rparr>"

text \<open>
  Worlds: one whose network is down, and one whose holiday source answers 503 twice and
  then delivers a list.
\<close>

definition offlineWorld :: "('v, 'b) world" where
  "offlineWorld =
     \<lparr>cache = Map.empty, clock = 1700000000000, network = (\<lambda>k url. Rejects ''fetch failed''),
      latency = (\<lambda>k. 40), tzdata = (\<lambda>z t. None), requests = [], sleeps = [], console = []\<rparr>"

definition exPayload :: "holiday option list" where
  "exPayload =
     [Some \<lparr>date = ''2025-01-01'', name = ''Ano Nuevo'', localName = Some ''Ano Nuevo'',
            countryCode = Some ''CO''\<rparr>]"

definition flakyWorld :: "(holiday list, holiday holidays_body) world" where
  "flakyWorld =
     \<lparr>cache = Map.empty, clock = 1700000000000,
      network = (\<lambda>k url. if k < 2 then Resolves (Response 503 ''Service Unavailable'' None)
                         else Resolves (Response 200 ''OK'' (Some (JsonArray exPayload)))),
      latency = (\<lambda>k. 40), tzdata = (\<lambda>z t. None), requests = [], sleeps = [], console = []\<rparr>"

text \<open>
  A world in which the primary holiday source answers 503 for country \<^verbatim>\<open>XX\<close> while every
  other URL would deliver a list, and one whose network is down while the runtime knows
  the zones \<^verbatim>\<open>Africa/Abidjan\<close>, which is at offset zero, and \<^verbatim>\<open>America/Denver\<close>.
\<close>

definition primaryDownWorld :: "(holiday list, holiday holidays_body) world" where
  "primaryDownWorld =
     \<lparr>cache = Map.empty, clock = 1700000000000,
      network = (\<lambda>k url. if url = holidaysUrl 2025 ''XX''
                         then Resolves (Response 503 ''Service Unavailable'' None)
                         else Resolves (Response 200 ''OK'' (Some (JsonArray exPayload)))),
      latency = (\<lambda>k. 40), tzdata = (\<lambda>z t. None), requests = [], sleeps = [], console = []\<rparr>"

definition timeServiceDownWorld :: "(zone_status, time_body) world" where
  "timeServiceDownWorld =
     \<lparr>cache = Map.empty, clock = 1700000000000, network = (\<lambda>k url. Rejects ''fetch failed''),
      latency = (\<lambda>k. 40),
      tzdata = (\<lambda>z t. if z = ''Africa/Abidjan''
                       then Some \<lparr>local_month = 11, local_day = 14, local_year = 2023,
                                  longOffsetName = ''GMT+00:00''\<rparr>
                       else if z = ''America/Denver''
                       then Some \<lparr>local_month = 11, local_day = 14, local_year = 2023,
                                  longOffsetName = ''GMT-07:00''\<rparr>
                       else None),
      requests = [], sleeps = [], console = []\<rparr>"


section \<open>Facts about the Map model\<close>

lemma map_set_keys:
  "map fst (map_set k v m) = (if k \<in> fst ` set m then map fst m else map fst m @ [k])"
proof (induction m)
  case Nil
  then show ?case by simp
next
  case (Cons e m)
  obtain k' v' where e: "e = (k', v')" by (cases e)
  show ?case
  proof (cases "k' = k")
    case True
    then show ?thesis using e by simp
  next
    case False
    then show ?thesis using e Cons.IH by auto
  qed
qed

lemma map_set_key_set: "fst ` set (map_set k v m) = insert k (fst ` set m)"
  using arg_cong [OF map_set_keys [of k v m], of set] by (auto split: if_splits)

lemma map_set_distinct:
  "distinct (map fst m) \<Longrightarrow> distinct (map fst (map_set k v m))"
  by (simp add: map_set_keys)

lemma map_set_entries: "set (map_set k v m) \<subseteq> insert (k, v) (set m)"
  by (induction m) (auto split: if_splits)

lemma map_of_map_set: "map_of (map_set k v m) = (map_of m)(k \<mapsto> v)"
  by (induction m) (auto simp: fun_eq_iff)

lemma foldl_set_distinct:
  "distinct (map fst m) \<Longrightarrow>
   distinct (map fst (foldl (\<lambda>m (k, v). map_set k v m) m kvs))"
  by (induction kvs arbitrary: m) (auto simp: map_set_distinct)

lemma foldl_set_keys:
  "fst ` set (foldl (\<lambda>m (k, v). map_set k v m) m kvs) = fst ` set m \<union> fst ` set kvs"
proof (induction kvs arbitrary: m)
  case Nil
  then show ?case by simp
next
  case (Cons kv kvs)
  obtain k v where kv: "kv = (k, v)" by (cases kv)
  have "fst ` set (map_set k v m) = insert k (fst ` set m)"
    by (rule map_set_key_set)
  then show ?case using Cons.IH [of "map_set k v m"] kv by auto
qed

lemma foldl_set_entries:
  "set (foldl (\<lambda>m (k, v). map_set k v m) m kvs) \<subseteq> set m \<union> set kvs"
proof (induction kvs arbitrary: m)
  case Nil
  then show ?case by simp
next
  case (Cons kv kvs)
  obtain k v where kv: "kv = (k, v)" by (cases kv)
  show ?case using Cons.IH [of "map_set k v m"] map_set_entries [of k v m] kv by auto
qed

lemma new_Map_distinct: "distinct (map fst (new_Map kvs))"
  unfolding new_Map_def by (rule foldl_set_distinct) simp

lemma new_Map_keys: "fst ` set (new_Map kvs) = fst ` set kvs"
  unfolding new_Map_def by (simp add: foldl_set_keys)

lemma new_Map_entries: "set (new_Map kvs) \<subseteq> set kvs"
  unfolding new_Map_def using foldl_set_entries [of "[]" kvs] by simp

lemma map_has_keys: "map_has k m = (k \<in> fst ` set m)"
  by (simp add: map_has_def map_of_eq_None_iff)

lemma holidaysMap_distinct: "distinct (map fst (holidaysMap hs))"
  by (simp add: holidaysMap_def new_Map_distinct)

lemma holidaysMap_keys: "fst ` set (holidaysMap hs) = date ` set hs"
  by (simp add: holidaysMap_def new_Map_keys image_image)

lemma holidaysMap_entry: "(d, h) \<in> set (holidaysMap hs) \<Longrightarrow> d = date h \<and> h \<in> set hs"
  using new_Map_entries [of "map (\<lambda>h. (date h, h)) hs"] by (auto simp: holidaysMap_def)

lemma holidaysMap_dates: "map date (map snd (holidaysMap hs)) = map fst (holidaysMap hs)"
  using holidaysMap_entry [of _ _ hs] by (auto simp: map_eq_conv)

section \<open>The holiday partition\<close>

lemma forEachA_eq:
  "forEachA bm es (cs, oa) =
     (cs @ map (\<lambda>(d, h). \<lparr>common_date = d, nameA = name h, nameB = name (the (map_get d bm))\<rparr>)
             (filter (\<lambda>(d, h). map_has d bm) es),
      oa @ map snd (filter (\<lambda>(d, h). \<not> map_has d bm) es))"
  by (induction es arbitrary: cs oa) auto

lemma forEachB_eq:
  "forEachB am es ob = ob @ map snd (filter (\<lambda>(d, h). \<not> map_has d am) es)"
  by (induction es arbitrary: ob) auto

lemma common_dates:
  "map common_date (common (compareHolidays hsA hsB)) =
     filter (\<lambda>d. d \<in> date ` set hsB) (map fst (holidaysMap hsA))"
proof -
  have "map common_date (common (compareHolidays hsA hsB)) =
          map fst (filter (\<lambda>(d, h). map_has d (holidaysMap hsB)) (holidaysMap hsA))"
    by (simp add: compareHolidays_def Let_def entries_def forEachA_eq case_prod_unfold comp_def)
  also have "\<dots> = filter (\<lambda>d. d \<in> date ` set hsB) (map fst (holidaysMap hsA))"
    by (simp add: filter_map comp_def case_prod_unfold map_has_keys holidaysMap_keys)
  finally show ?thesis .
qed

lemma only_dates:
  "map date (map snd (filter (\<lambda>(d, h). \<not> map_has d (holidaysMap hsB)) (holidaysMap hsA))) =
     filter (\<lambda>d. d \<notin> date ` set hsB) (map fst (holidaysMap hsA))"
proof -
  have "map date (map snd (filter (\<lambda>(d, h). \<not> map_has d (holidaysMap hsB)) (holidaysMap hsA))) =
          map fst (filter (\<lambda>(d, h). \<not> map_has d (holidaysMap hsB)) (holidaysMap hsA))"
    using holidaysMap_entry [of _ _ hsA] by (auto simp: map_eq_conv)
  also have "\<dots> = filter (\<lambda>d. d \<notin> date ` set hsB) (map fst (holidaysMap hsA))"
    by (simp add: filter_map comp_def case_prod_unfold map_has_keys holidaysMap_keys)
  finally show ?thesis .
qed

lemma onlyA_dates:
  "map date (onlyA (compareHolidays hsA hsB)) =
     filter (\<lambda>d. d \<notin> date ` set hsB) (map fst (holidaysMap hsA))"
  using only_dates [of hsB hsA]
  by (simp add: compareHolidays_def Let_def entries_def forEachA_eq case_prod_unfold)

lemma onlyB_dates:
  "map date (onlyB (compareHolidays hsA hsB)) =
     filter (\<lambda>d. d \<notin> date ` set hsA) (map fst (holidaysMap hsB))"
  using only_dates [of hsA hsB]
  by (simp add: compareHolidays_def Let_def entries_def forEachA_eq forEachB_eq case_prod_unfold)

lemma length_filter_split:
  "length (filter P xs) + length (filter (\<lambda>x. \<not> P x) xs) = length xs"
  by (induction xs) auto

lemma keys_card: "length (map fst (holidaysMap hs)) = card (date ` set hs)"
  using distinct_card [OF holidaysMap_distinct [of hs]] holidaysMap_keys [of hs] by simp

lemma compareHolidays_partition:
  "distinct (map common_date (common (compareHolidays hsA hsB)))
   \<and> distinct (map date (onlyA (compareHolidays hsA hsB)))
   \<and> distinct (map date (onlyB (compareHolidays hsA hsB)))
   \<and> set (map common_date (common (compareHolidays hsA hsB))) = date ` set hsA \<inter> date ` set hsB
   \<and> set (map date (onlyA (compareHolidays hsA hsB))) = date ` set hsA - date ` set hsB
   \<and> set (map date (onlyB (compareHolidays hsA hsB))) = date ` set hsB - date ` set hsA
   \<and> set (map common_date (common (compareHolidays hsA hsB)))
        \<inter> set (map date (onlyA (compareHolidays hsA hsB))) = {}
   \<and> set (map common_date (common (compareHolidays hsA hsB)))
        \<inter> set (map date (onlyB (compareHolidays hsA hsB))) = {}
   \<and> length (common (compareHolidays hsA hsB)) + length (onlyA (compareHolidays hsA hsB))
        = card (date ` set hsA)
   \<and> length (common (compareHolidays hsA hsB)) + length (onlyB (compareHolidays hsA hsB))
        = card (date ` set hsB)
   \<and> set (onlyA (compareHolidays hsA hsB)) \<subseteq> set hsA
   \<and> set (onlyB (compareHolidays hsA hsB)) \<subseteq> set hsB"
proof -
  let ?r = "compareHolidays hsA hsB"
  let ?ka = "map fst (holidaysMap hsA)" and ?kb = "map fst (holidaysMap hsB)"
  have da: "distinct ?ka" and db: "distinct ?kb"
    by (rule holidaysMap_distinct)+
  have sa: "set ?ka = date ` set hsA" and sb: "set ?kb = date ` set hsB"
    using holidaysMap_keys [of hsA] holidaysMap_keys [of hsB] by simp_all
  have c: "map common_date (common ?r) = filter (\<lambda>d. d \<in> date ` set hsB) ?ka"
    by (rule common_dates)
  have a: "map date (onlyA ?r) = filter (\<lambda>d. d \<notin> date ` set hsB) ?ka"
    by (rule onlyA_dates)
  have b: "map date (onlyB ?r) = filter (\<lambda>d. d \<notin> date ` set hsA) ?kb"
    by (rule onlyB_dates)
  have c1: "distinct (map common_date (common ?r))" using da by (simp add: c)
  have a1: "distinct (map date (onlyA ?r))" using da by (simp add: a)
  have b1: "distinct (map date (onlyB ?r))" using db by (simp add: b)
  have c2: "set (map common_date (common ?r)) = date ` set hsA \<inter> date ` set hsB"
    unfolding c using sa by auto
  have a2: "set (map date (onlyA ?r)) = date ` set hsA - date ` set hsB"
    unfolding a using sa by auto
  have b2: "set (map date (onlyB ?r)) = date ` set hsB - date ` set hsA"
    unfolding b using sb by auto
  have ca: "set (map common_date (common ?r)) \<inter> set (map date (onlyA ?r)) = {}"
    unfolding c2 a2 by auto
  have cb: "set (map common_date (common ?r)) \<inter> set (map date (onlyB ?r)) = {}"
    unfolding c2 b2 by auto
  have "length (map common_date (common ?r)) + length (map date (onlyA ?r)) = length ?ka"
    unfolding c a by (rule length_filter_split)
  then have la: "length (common ?r) + length (onlyA ?r) = card (date ` set hsA)"
    using keys_card [of hsA] by simp
  have cdist: "distinct (map common_date (common ?r))" by (rule c1)
  have "length (map common_date (common ?r)) = card (date ` set hsA \<inter> date ` set hsB)"
    using distinct_card [OF cdist] c2 by simp
  moreover have "length (map date (onlyB ?r)) = card (date ` set hsB - date ` set hsA)"
    using distinct_card [OF b1] b2 by simp
  moreover have "card (date ` set hsA \<inter> date ` set hsB) + card (date ` set hsB - date ` set hsA)
      = card (date ` set hsB)"
    using card_Diff_subset_Int [of "date ` set hsB" "date ` set hsA"]
      card_mono [of "date ` set hsB" "date ` set hsB \<inter> date ` set hsA"]
    by (simp add: Int_commute)
  ultimately have lb: "length (common ?r) + length (onlyB ?r) = card (date ` set hsB)"
    by simp
  have ea: "set (onlyA ?r) \<subseteq> set hsA"
    using holidaysMap_entry [of _ _ hsA]
    by (auto simp: compareHolidays_def Let_def entries_def forEachA_eq case_prod_unfold)
  have eb: "set (onlyB ?r) \<subseteq> set hsB"
    using holidaysMap_entry [of _ _ hsB]
    by (auto simp: compareHolidays_def Let_def entries_def forEachA_eq forEachB_eq case_prod_unfold)
  show ?thesis using c1 a1 b1 c2 a2 b2 ca cb la lb ea eb by blast
qed

section \<open>What compareCountries returns\<close>

lemma compareCountries_Inr:
  assumes "compareCountries cA cB yr hsA hsB sA sB = Inr r"
  shows "\<exists>zsA zsB. getTimezones cA = ZoneArray zsA \<and> getTimezones cB = ZoneArray zsB
    \<and> inputs r = \<lparr>countryA = cA, countryB = cB, year = yr\<rparr>
    \<and> holidays r = compareHolidays hsA hsB
    \<and> tzA (timezones r) = filterValid (awaitStatuses sA zsA)
    \<and> tzB (timezones r) = filterValid (awaitStatuses sB zsB)
    \<and> commonOffsetNow (timezones r) =
         compareOffsets (filterValid (awaitStatuses sA zsA)) (filterValid (awaitStatuses sB zsB))"
proof (cases "getTimezones cA")
  case (Inherited m)
  then show ?thesis using assms by (simp add: compareCountries_def)
next
  case a: (ZoneArray zsA)
  show ?thesis
  proof (cases "getTimezones cB")
    case (Inherited m)
    then show ?thesis using assms a by (simp add: compareCountries_def)
  next
    case b: (ZoneArray zsB)
    have "r = \<lparr>inputs = \<lparr>countryA = cA, countryB = cB, year = yr\<rparr>,
               holidays = compareHolidays hsA hsB,
               timezones = \<lparr>tzA = filterValid (awaitStatuses sA zsA),
                            tzB = filterValid (awaitStatuses sB zsB),
                            commonOffsetNow =
                              compareOffsets (filterValid (awaitStatuses sA zsA))
                                (filterValid (awaitStatuses sB zsB))\<rparr>\<rparr>"
      using assms a b by (simp add: compareCountries_def Let_def)
    then show ?thesis using a b by simp
  qed
qed

lemma compareCountries_holidays:
  "compareCountries cA cB yr hsA hsB sA sB = Inr r \<Longrightarrow> holidays r = compareHolidays hsA hsB"
  using compareCountries_Inr by blast

lemma compareCountries_offsets:
  "compareCountries cA cB yr hsA hsB sA sB = Inr r \<Longrightarrow>
   commonOffsetNow (timezones r) = compareOffsets (tzA (timezones r)) (tzB (timezones r))"
  using compareCountries_Inr [of cA cB yr hsA hsB sA sB r] by auto

text \<open>
  C1. In every result of compareCountries, after each side is deduplicated by date key,
  the dates of \<open>common\<close> are exactly the dates on both sides and the dates of \<open>onlyA\<close>
  (\<open>onlyB\<close>) exactly those of side A (side B) that the other side lacks; no date is
  listed twice in any of the three lists, so every date key of a side is in exactly one of
  \<open>common\<close> and that side's \<open>only\<close> list, \<open>common\<close> shares no date with \<open>onlyA\<close> or
  \<open>onlyB\<close>, and \<open>common.length + onlyA.length\<close> is the number of unique dates of
  \<open>holidaysA\<close> (symmetrically for B).
\<close>

theorem holiday_partition_by_date:
  assumes "compareCountries cA cB yr hsA hsB sA sB = Inr r"
  shows "distinct (map common_date (common (holidays r)))
   \<and> distinct (map date (onlyA (holidays r)))
   \<and> distinct (map date (onlyB (holidays r)))
   \<and> set (map common_date (common (holidays r))) = date ` set hsA \<inter> date ` set hsB
   \<and> set (map date (onlyA (holidays r))) = date ` set hsA - date ` set hsB
   \<and> set (map date (onlyB (holidays r))) = date ` set hsB - date ` set hsA
   \<and> set (map common_date (common (holidays r))) \<inter> set (map date (onlyA (holidays r))) = {}
   \<and> set (map common_date (common (holidays r))) \<inter> set (map date (onlyB (holidays r))) = {}
   \<and> length (common (holidays r)) + length (onlyA (holidays r)) = card (date ` set hsA)
   \<and> length (common (holidays r)) + length (onlyB (holidays r)) = card (date ` set hsB)
   \<and> set (onlyA (holidays r)) \<subseteq> set hsA
   \<and> set (onlyB (holidays r)) \<subseteq> set hsB"
  unfolding compareCountries_holidays [OF assms] by (rule compareHolidays_partition)


lemma compareCountries_total:
  "getTimezones cA = ZoneArray zsA \<Longrightarrow> getTimezones cB = ZoneArray zsB \<Longrightarrow>
   \<exists>r. compareCountries cA cB yr hsA hsB sA sB = Inr r"
  by (simp add: compareCountries_def Let_def)

lemma getTimezones_US:
  "getTimezones ''US'' = ZoneArray
     [''America/New_York'', ''America/Detroit'', ''America/Kentucky/Louisville'',
      ''America/Kentucky/Monticello'', ''America/Indiana/Indianapolis'',
      ''America/Indiana/Vincennes'', ''America/Indiana/Winamac'', ''America/Indiana/Marengo'',
      ''America/Indiana/Petersburg'', ''America/Indiana/Vevay'', ''America/Chicago'',
      ''America/Indiana/Tell_City'', ''America/Indiana/Knox'', ''America/Menominee'',
      ''America/North_Dakota/Center'', ''America/North_Dakota/New_Salem'',
      ''America/North_Dakota/Beulah'', ''America/Denver'', ''America/Boise'', ''America/Phoenix'',
      ''America/Los_Angeles'', ''America/Anchorage'', ''America/Juneau'', ''America/Sitka'',
      ''America/Metlakatla'', ''America/Yakutat'', ''America/Nome'', ''America/Adak'',
      ''Pacific/Honolulu'']"
  by code_simp

lemma getTimezones_CO: "getTimezones ''CO'' = ZoneArray [''America/Bogota'']"
  by code_simp

theorem holiday_partition_by_date_witness:
  "\<exists>r. compareCountries ''US'' ''CO'' 2025 exHolidaysUS exHolidaysCO exSettledUS exSettledCO = Inr r
     \<and> map common_date (common (holidays r)) = [''2025-01-01'']
     \<and> map date (onlyA (holidays r)) = [''2025-07-04'']
     \<and> map date (onlyB (holidays r)) = [''2025-07-20'']
     \<and> length (common (holidays r)) + length (onlyA (holidays r)) = card (date ` set exHolidaysUS)
     \<and> length (common (holidays r)) + length (onlyB (holidays r)) = card (date ` set exHolidaysCO)"
proof -
  have "\<exists>r. compareCountries ''US'' ''CO'' 2025 exHolidaysUS exHolidaysCO exSettledUS exSettledCO
      = Inr r"
    by (rule compareCountries_total [OF getTimezones_US getTimezones_CO])
  then obtain r where r:
    "compareCountries ''US'' ''CO'' 2025 exHolidaysUS exHolidaysCO exSettledUS exSettledCO = Inr r" ..
  have h: "holidays r = compareHolidays exHolidaysUS exHolidaysCO"
    by (rule compareCountries_holidays [OF r])
  have c: "map common_date (common (holidays r)) = [''2025-01-01'']"
    unfolding h by code_simp
  have a: "map date (onlyA (holidays r)) = [''2025-07-04'']"
    unfolding h by code_simp
  have b: "map date (onlyB (holidays r)) = [''2025-07-20'']"
    unfolding h by code_simp
  note p = holiday_partition_by_date [OF r]
  have la: "length (common (holidays r)) + length (onlyA (holidays r)) = card (date ` set exHolidaysUS)"
    using p by (elim conjE)
  have lb: "length (common (holidays r)) + length (onlyB (holidays r)) = card (date ` set exHolidaysCO)"
    using p by (elim conjE)
  show ?thesis
    by (rule exI [of _ r]) (intro conjI r c a b la lb)
qed


section \<open>The offset overlap\<close>

lemma groupByOffset_distinct:
  "distinct (map fst m) \<Longrightarrow> distinct (map fst (groupByOffset ss m))"
  by (induction ss arbitrary: m) (simp_all add: Let_def map_set_distinct)

lemma groupByOffset_keys:
  "fst ` set (groupByOffset ss m) = fst ` set m \<union> utc_offset ` set ss"
proof (induction ss arbitrary: m)
  case Nil
  then show ?case by simp
next
  case (Cons s ss)
  show ?case using Cons.IH by (simp add: Let_def map_set_key_set)
qed

lemma groupByOffset_lookup:
  "map_of (groupByOffset ss m) k =
     (case map_of m k of
        Some zs \<Rightarrow> Some (zs @ map zone (filter (\<lambda>s. utc_offset s = k) ss))
      | None \<Rightarrow> if k \<in> utc_offset ` set ss
                then Some (map zone (filter (\<lambda>s. utc_offset s = k) ss)) else None)"
proof (induction ss arbitrary: m)
  case Nil
  then show ?case by (simp split: option.splits)
next
  case (Cons s ss)
  show ?case
    by (simp add: Let_def Cons.IH map_of_map_set map_get_def split: option.splits)
qed

lemma forEachOffset_eq:
  "forEachOffset bm es ovs =
     ovs @ map (\<lambda>(k, zs). \<lparr>offset = k, zonesA = zs, zonesB = the (map_get k bm)\<rparr>)
             (filter (\<lambda>(k, zs). map_has k bm) es)"
  by (induction es arbitrary: ovs) auto


lemma groupByOffset_entry:
  assumes "(k, zs) \<in> set (groupByOffset ss [])"
  shows "k \<in> utc_offset ` set ss \<and> zs = map zone (filter (\<lambda>s. utc_offset s = k) ss)"
proof -
  have d: "distinct (map fst (groupByOffset ss []))"
    by (rule groupByOffset_distinct) simp
  have "map_of (groupByOffset ss []) k = Some zs"
    using d assms by simp
  then show ?thesis
    by (simp add: groupByOffset_lookup split: if_splits)
qed

lemma groupByOffset_get:
  "k \<in> utc_offset ` set ss \<Longrightarrow>
   the (map_get k (groupByOffset ss [])) = map zone (filter (\<lambda>s. utc_offset s = k) ss)"
  by (simp add: map_get_def groupByOffset_lookup)

lemma overlaps_eq:
  "overlaps (compareOffsets ssA ssB) =
     map (\<lambda>(k, zs). \<lparr>offset = k, zonesA = zs, zonesB = the (map_get k (groupByOffset ssB []))\<rparr>)
       (filter (\<lambda>(k, zs). k \<in> utc_offset ` set ssB) (groupByOffset ssA []))"
  by (simp add: compareOffsets_def Let_def entries_def forEachOffset_eq map_has_keys
      groupByOffset_keys)

lemma overlaps_offsets:
  "map offset (overlaps (compareOffsets ssA ssB)) =
     filter (\<lambda>k. k \<in> utc_offset ` set ssB) (map fst (groupByOffset ssA []))"
  by (simp add: overlaps_eq filter_map comp_def case_prod_unfold)

lemma compareOffsets_overlaps:
  "distinct (map offset (overlaps (compareOffsets ssA ssB)))
   \<and> set (map offset (overlaps (compareOffsets ssA ssB)))
        = utc_offset ` set ssA \<inter> utc_offset ` set ssB
   \<and> (\<forall>ov \<in> set (overlaps (compareOffsets ssA ssB)).
         zonesA ov = map zone (filter (\<lambda>s. utc_offset s = offset ov) ssA)
       \<and> zonesB ov = map zone (filter (\<lambda>s. utc_offset s = offset ov) ssB))
   \<and> hasOverlap (compareOffsets ssA ssB) = (overlaps (compareOffsets ssA ssB) \<noteq> [])"
proof -
  have d: "distinct (map fst (groupByOffset ssA []))"
    by (rule groupByOffset_distinct) simp
  have k: "set (map fst (groupByOffset ssA [])) = utc_offset ` set ssA"
    using groupByOffset_keys [of ssA "[]"] by simp
  have 1: "distinct (map offset (overlaps (compareOffsets ssA ssB)))"
    unfolding overlaps_offsets using d by simp
  have 2: "set (map offset (overlaps (compareOffsets ssA ssB)))
        = utc_offset ` set ssA \<inter> utc_offset ` set ssB"
    unfolding overlaps_offsets using k by auto
  have 3: "\<forall>ov \<in> set (overlaps (compareOffsets ssA ssB)).
         zonesA ov = map zone (filter (\<lambda>s. utc_offset s = offset ov) ssA)
       \<and> zonesB ov = map zone (filter (\<lambda>s. utc_offset s = offset ov) ssB)"
  proof
    fix ov assume "ov \<in> set (overlaps (compareOffsets ssA ssB))"
    then obtain k zs where e: "(k, zs) \<in> set (groupByOffset ssA [])"
      and kb: "k \<in> utc_offset ` set ssB"
      and ov: "ov = \<lparr>offset = k, zonesA = zs, zonesB = the (map_get k (groupByOffset ssB []))\<rparr>"
      unfolding overlaps_eq by auto
    show "zonesA ov = map zone (filter (\<lambda>s. utc_offset s = offset ov) ssA)
       \<and> zonesB ov = map zone (filter (\<lambda>s. utc_offset s = offset ov) ssB)"
      using groupByOffset_entry [OF e] groupByOffset_get [OF kb] by (simp add: ov)
  qed
  have 4: "hasOverlap (compareOffsets ssA ssB) = (overlaps (compareOffsets ssA ssB) \<noteq> [])"
    by (simp add: compareOffsets_def Let_def)
  show ?thesis using 1 2 3 4 by (intro conjI)
qed

text \<open>
  C2. In every result of compareCountries the offsets of \<open>overlaps\<close> are pairwise
  different and are exactly the offsets that a resolved zone status of country A and one
  of country B both have; each entry lists, for its offset, every resolved zone of A and
  every resolved zone of B with that offset; and \<open>hasOverlap\<close> holds exactly when
  \<open>overlaps\<close> is not empty.
\<close>

theorem offset_overlaps_exact:
  assumes "compareCountries cA cB yr hsA hsB sA sB = Inr r"
  shows "distinct (map offset (overlaps (commonOffsetNow (timezones r))))
   \<and> set (map offset (overlaps (commonOffsetNow (timezones r))))
        = utc_offset ` set (tzA (timezones r)) \<inter> utc_offset ` set (tzB (timezones r))
   \<and> (\<forall>ov \<in> set (overlaps (commonOffsetNow (timezones r))).
         zonesA ov = map zone (filter (\<lambda>s. utc_offset s = offset ov) (tzA (timezones r)))
       \<and> zonesB ov = map zone (filter (\<lambda>s. utc_offset s = offset ov) (tzB (timezones r))))
   \<and> hasOverlap (commonOffsetNow (timezones r))
        = (overlaps (commonOffsetNow (timezones r)) \<noteq> [])"
  unfolding compareCountries_offsets [OF assms] by (rule compareOffsets_overlaps)


theorem offset_overlaps_exact_witness:
  "\<exists>r. compareCountries ''US'' ''CO'' 2025 exHolidaysUS exHolidaysCO exSettledUS exSettledCO = Inr r
     \<and> overlaps (commonOffsetNow (timezones r)) =
           [\<lparr>offset = ''-05:00'', zonesA = [''America/New_York'', ''America/Detroit''],
             zonesB = [''America/Bogota'']\<rparr>]
     \<and> distinct (map offset (overlaps (commonOffsetNow (timezones r))))
     \<and> set (map offset (overlaps (commonOffsetNow (timezones r))))
          = utc_offset ` set (tzA (timezones r)) \<inter> utc_offset ` set (tzB (timezones r))
     \<and> map zone (filter (\<lambda>s. utc_offset s = ''-05:00'') (tzA (timezones r)))
          = [''America/New_York'', ''America/Detroit'']
     \<and> map zone (filter (\<lambda>s. utc_offset s = ''-05:00'') (tzB (timezones r)))
          = [''America/Bogota'']
     \<and> hasOverlap (commonOffsetNow (timezones r))"
proof -
  have "\<exists>r. compareCountries ''US'' ''CO'' 2025 exHolidaysUS exHolidaysCO exSettledUS exSettledCO
      = Inr r"
    by (rule compareCountries_total [OF getTimezones_US getTimezones_CO])
  then obtain r where r:
    "compareCountries ''US'' ''CO'' 2025 exHolidaysUS exHolidaysCO exSettledUS exSettledCO = Inr r" ..
  have "map_sum id (\<lambda>r. overlaps (commonOffsetNow (timezones r)))
          (compareCountries ''US'' ''CO'' 2025 exHolidaysUS exHolidaysCO exSettledUS exSettledCO) =
        Inr [\<lparr>offset = ''-05:00'', zonesA = [''America/New_York'', ''America/Detroit''],
               zonesB = [''America/Bogota'']\<rparr>]"
    by code_simp
  then have ov: "overlaps (commonOffsetNow (timezones r)) =
           [\<lparr>offset = ''-05:00'', zonesA = [''America/New_York'', ''America/Detroit''],
             zonesB = [''America/Bogota'']\<rparr>]"
    unfolding r by simp
  note p = offset_overlaps_exact [OF r]
  have d: "distinct (map offset (overlaps (commonOffsetNow (timezones r))))"
    using p by (elim conjE)
  have s: "set (map offset (overlaps (commonOffsetNow (timezones r))))
          = utc_offset ` set (tzA (timezones r)) \<inter> utc_offset ` set (tzB (timezones r))"
    using p by (elim conjE)
  have "\<forall>ov \<in> set (overlaps (commonOffsetNow (timezones r))).
         zonesA ov = map zone (filter (\<lambda>s. utc_offset s = offset ov) (tzA (timezones r)))
       \<and> zonesB ov = map zone (filter (\<lambda>s. utc_offset s = offset ov) (tzB (timezones r)))"
    using p by (elim conjE)
  then have za: "map zone (filter (\<lambda>s. utc_offset s = ''-05:00'') (tzA (timezones r)))
          = [''America/New_York'', ''America/Detroit'']"
    and zb: "map zone (filter (\<lambda>s. utc_offset s = ''-05:00'') (tzB (timezones r)))
          = [''America/Bogota'']"
    unfolding ov by simp_all
  have "hasOverlap (commonOffsetNow (timezones r))
        = (overlaps (commonOffsetNow (timezones r)) \<noteq> [])"
    using p by (elim conjE)
  then have h: "hasOverlap (commonOffsetNow (timezones r))"
    unfolding ov by simp
  show ?thesis
    by (rule exI [of _ r]) (intro conjI r ov d s za zb h)
qed


section \<open>The TTL cache\<close>

lemma cache_keys_apart: "getCacheKey ''holidays'' args \<noteq> getCacheKey ''zone'' args'"
  by (simp add: getCacheKey_def)

text \<open>
  C6. After \<open>setCache key v\<close> at insertion time \<open>clock w\<close>, a lookup of the key at time
  \<open>t\<close> returns \<open>v\<close> and leaves the world as it is when \<open>t - clock w \<le> ttl\<close>; when
  \<open>t - clock w > ttl\<close> it returns absent and the entry is gone from the cache afterwards,
  every other key being as before.
\<close>

theorem cache_round_trip:
  "(t - clock w \<le> ttl \<longrightarrow>
      getFromCache key ttl ((setCache key v w)\<lparr>clock := t\<rparr>)
        = (Some v, (setCache key v w)\<lparr>clock := t\<rparr>))
   \<and> (t - clock w > ttl \<longrightarrow>
        fst (getFromCache key ttl ((setCache key v w)\<lparr>clock := t\<rparr>)) = None
      \<and> cache (snd (getFromCache key ttl ((setCache key v w)\<lparr>clock := t\<rparr>))) key = None
      \<and> (\<forall>k. k \<noteq> key \<longrightarrow>
            cache (snd (getFromCache key ttl ((setCache key v w)\<lparr>clock := t\<rparr>))) k = cache w k))"
  by (simp add: getFromCache_def setCache_def Let_def)

theorem cache_round_trip_witness:
  "fst (getFromCache ''holidays:CO:2025'' CACHE_TTL_HOLIDAYS
         ((setCache ''holidays:CO:2025'' exHolidaysCO
             (offlineWorld :: (holiday list, holiday holidays_body) world))
          \<lparr>clock := 1700000000000 + CACHE_TTL_HOLIDAYS\<rparr>)) = Some exHolidaysCO
   \<and> fst (getFromCache ''holidays:CO:2025'' CACHE_TTL_HOLIDAYS
         ((setCache ''holidays:CO:2025'' exHolidaysCO
             (offlineWorld :: (holiday list, holiday holidays_body) world))
          \<lparr>clock := 1700000000000 + CACHE_TTL_HOLIDAYS + 1\<rparr>)) = None
   \<and> cache (snd (getFromCache ''holidays:CO:2025'' CACHE_TTL_HOLIDAYS
         ((setCache ''holidays:CO:2025'' exHolidaysCO
             (offlineWorld :: (holiday list, holiday holidays_body) world))
          \<lparr>clock := 1700000000000 + CACHE_TTL_HOLIDAYS + 1\<rparr>))) ''holidays:CO:2025'' = None"
  using
    cache_round_trip [of "1700000000000 + CACHE_TTL_HOLIDAYS"
      "offlineWorld :: (holiday list, holiday holidays_body) world" CACHE_TTL_HOLIDAYS
      "''holidays:CO:2025''" exHolidaysCO]
    cache_round_trip [of "1700000000000 + CACHE_TTL_HOLIDAYS + 1"
      "offlineWorld :: (holiday list, holiday holidays_body) world" CACHE_TTL_HOLIDAYS
      "''holidays:CO:2025''" exHolidaysCO]
  by (simp add: offlineWorld_def)


section \<open>fetchWithRetry\<close>

lemma loop_exhausted:
  "maxRetries < i \<Longrightarrow> fetchWithRetry_loop url maxRetries i lastError w = (Inl lastError, w)"
  by (subst fetchWithRetry_loop.simps) simp

lemma loop_step:
  "i \<le> maxRetries \<Longrightarrow>
   fetchWithRetry_loop url maxRetries i lastError w =
     (case tryBody (network w (length (requests w)) url) of
        Inr body \<Rightarrow> (Inr body, snd (fetch url w))
      | Inl error \<Rightarrow>
          fetchWithRetry_loop url maxRetries (i + 1) (Some error)
            (if i < maxRetries then sleep (1000 * (int i + 1)) (snd (fetch url w))
             else snd (fetch url w)))"
proof -
  assume i: "i \<le> maxRetries"
  have f: "fetch url w = (network w (length (requests w)) url, snd (fetch url w))"
    by (simp add: fetch_def Let_def)
  show ?thesis
    by (subst fetchWithRetry_loop.simps, subst f) (simp add: i)
qed

lemma fetch_fields [simp]:
  "requests (snd (fetch url w)) = requests w @ [url]"
  "sleeps (snd (fetch url w)) = sleeps w"
  "cache (snd (fetch url w)) = cache w"
  "network (snd (fetch url w)) = network w"
  "latency (snd (fetch url w)) = latency w"
  "tzdata (snd (fetch url w)) = tzdata w"
  "console (snd (fetch url w)) = console w"
  "clock (snd (fetch url w)) = clock w + int (latency w (length (requests w)))"
  by (simp_all add: fetch_def Let_def)

lemma sleep_fields [simp]:
  "requests (sleep ms w) = requests w"
  "sleeps (sleep ms w) = sleeps w @ [ms]"
  "cache (sleep ms w) = cache w"
  "network (sleep ms w) = network w"
  "latency (sleep ms w) = latency w"
  "tzdata (sleep ms w) = tzdata w"
  "console (sleep ms w) = console w"
  "clock (sleep ms w) = clock w + ms"
  by (simp_all add: sleep_def)

lemma loop_frame:
  "cache (snd (fetchWithRetry_loop url maxRetries i lastError w)) = cache w
   \<and> network (snd (fetchWithRetry_loop url maxRetries i lastError w)) = network w
   \<and> latency (snd (fetchWithRetry_loop url maxRetries i lastError w)) = latency w
   \<and> tzdata (snd (fetchWithRetry_loop url maxRetries i lastError w)) = tzdata w
   \<and> console (snd (fetchWithRetry_loop url maxRetries i lastError w)) = console w
   \<and> clock w \<le> clock (snd (fetchWithRetry_loop url maxRetries i lastError w))"
proof (induction url maxRetries i lastError w rule: fetchWithRetry_loop.induct)
  case (1 url maxRetries i lastError w)
  show ?case
  proof (cases "i \<le> maxRetries")
    case False
    then show ?thesis by (simp add: loop_exhausted)
  next
    case True
    show ?thesis
    proof (cases "tryBody (network w (length (requests w)) url)")
      case (Inr body)
      then show ?thesis using True by (simp add: loop_step)
    next
      case (Inl error)
      have f: "fetch url w = (network w (length (requests w)) url, snd (fetch url w))"
        by (simp add: fetch_def Let_def)
      show ?thesis
        using "1.IH" [OF True f [symmetric] Inl] True Inl
        by (simp add: loop_step split: if_splits)
    qed
  qed
qed


lemma fetchWithRetry_frame:
  "cache (snd (fetchWithRetry url n w)) = cache w"
  "network (snd (fetchWithRetry url n w)) = network w"
  "latency (snd (fetchWithRetry url n w)) = latency w"
  "tzdata (snd (fetchWithRetry url n w)) = tzdata w"
  "console (snd (fetchWithRetry url n w)) = console w"
  "clock w \<le> clock (snd (fetchWithRetry url n w))"
  using loop_frame [of url n 0 None w] by (simp_all add: fetchWithRetry_def)

lemma tryBody_failure:
  "(\<exists>e. tryBody a = Inl e) =
     (case a of Rejects msg \<Rightarrow> True | Resolves r \<Rightarrow> \<not> ok r \<or> json r = None)"
  by (auto simp: tryBody_def split: attempt.splits option.splits)

lemma fetchWithRetry_cases:
  "(case tryBody (network w (length (requests w)) url) of
      Inr body \<Rightarrow>
        fst (fetchWithRetry url 2 w) = Inr body
        \<and> requests (snd (fetchWithRetry url 2 w)) = requests w @ [url]
        \<and> sleeps (snd (fetchWithRetry url 2 w)) = sleeps w
    | Inl e0 \<Rightarrow>
       (case tryBody (network w (length (requests w) + 1) url) of
          Inr body \<Rightarrow>
            fst (fetchWithRetry url 2 w) = Inr body
            \<and> requests (snd (fetchWithRetry url 2 w)) = requests w @ [url, url]
            \<and> sleeps (snd (fetchWithRetry url 2 w)) = sleeps w @ [1000]
        | Inl e1 \<Rightarrow>
           (case tryBody (network w (length (requests w) + 2) url) of
              Inr body \<Rightarrow>
                fst (fetchWithRetry url 2 w) = Inr body
                \<and> requests (snd (fetchWithRetry url 2 w)) = requests w @ [url, url, url]
                \<and> sleeps (snd (fetchWithRetry url 2 w)) = sleeps w @ [1000, 2000]
            | Inl e2 \<Rightarrow>
                fst (fetchWithRetry url 2 w) = Inl (Some e2)
                \<and> requests (snd (fetchWithRetry url 2 w)) = requests w @ [url, url, url]
                \<and> sleeps (snd (fetchWithRetry url 2 w)) = sleeps w @ [1000, 2000])))"
  by (simp add: fetchWithRetry_def loop_step loop_exhausted split: sum.splits)


text \<open>
  C3. fetchWithRetry with its default of 2 retries, by the outcome of the first, second
  and third attempt: a successful attempt returns its decoded body at once; a failed first
  attempt is followed by a wait of 1000 ms and a failed second one by a wait of 2000 ms;
  after a failed third attempt the error of that attempt is thrown, with no further wait.
  So at most 3 requests are made. An attempt fails, whatever the kind, when \<^verbatim>\<open>fetch\<close>
  rejects, when the status is not ok, or when the body does not decode.
\<close>

theorem fetchWithRetry_policy:
  "(case tryBody (network w (length (requests w)) url) of
      Inr body \<Rightarrow>
        fst (fetchWithRetry url 2 w) = Inr body
        \<and> requests (snd (fetchWithRetry url 2 w)) = requests w @ [url]
        \<and> sleeps (snd (fetchWithRetry url 2 w)) = sleeps w
    | Inl e0 \<Rightarrow>
       (case tryBody (network w (length (requests w) + 1) url) of
          Inr body \<Rightarrow>
            fst (fetchWithRetry url 2 w) = Inr body
            \<and> requests (snd (fetchWithRetry url 2 w)) = requests w @ [url, url]
            \<and> sleeps (snd (fetchWithRetry url 2 w)) = sleeps w @ [1000]
        | Inl e1 \<Rightarrow>
           (case tryBody (network w (length (requests w) + 2) url) of
              Inr body \<Rightarrow>
                fst (fetchWithRetry url 2 w) = Inr body
                \<and> requests (snd (fetchWithRetry url 2 w)) = requests w @ [url, url, url]
                \<and> sleeps (snd (fetchWithRetry url 2 w)) = sleeps w @ [1000, 2000]
            | Inl e2 \<Rightarrow>
                fst (fetchWithRetry url 2 w) = Inl (Some e2)
                \<and> requests (snd (fetchWithRetry url 2 w)) = requests w @ [url, url, url]
                \<and> sleeps (snd (fetchWithRetry url 2 w)) = sleeps w @ [1000, 2000])))
   \<and> length (requests (snd (fetchWithRetry url 2 w))) \<le> length (requests w) + 3
   \<and> (\<forall>a :: 'b attempt. (\<exists>e. tryBody a = Inl e) =
         (case a of Rejects msg \<Rightarrow> True | Resolves r \<Rightarrow> \<not> ok r \<or> json r = None))"
proof -
  have "length (requests (snd (fetchWithRetry url 2 w))) \<le> length (requests w) + 3"
    using fetchWithRetry_cases [where w = w and url = url] by (simp split: sum.splits)
  then show ?thesis
    using fetchWithRetry_cases [where w = w and url = url] tryBody_failure by blast
qed

theorem fetchWithRetry_policy_witness:
  "fst (fetchWithRetry (holidaysUrl 2025 ''CO'') 2 flakyWorld) = Inr (JsonArray exPayload)
   \<and> requests (snd (fetchWithRetry (holidaysUrl 2025 ''CO'') 2 flakyWorld))
        = [holidaysUrl 2025 ''CO'', holidaysUrl 2025 ''CO'', holidaysUrl 2025 ''CO'']
   \<and> sleeps (snd (fetchWithRetry (holidaysUrl 2025 ''CO'') 2 flakyWorld)) = [1000, 2000]
   \<and> (\<exists>e. tryBody (network flakyWorld 0 (holidaysUrl 2025 ''CO'')) = Inl e)"
proof -
  note p = fetchWithRetry_policy [where w = flakyWorld and url = "holidaysUrl 2025 ''CO''"]
  have a: "fst (fetchWithRetry (holidaysUrl 2025 ''CO'') 2 flakyWorld) = Inr (JsonArray exPayload)
   \<and> requests (snd (fetchWithRetry (holidaysUrl 2025 ''CO'') 2 flakyWorld))
        = [holidaysUrl 2025 ''CO'', holidaysUrl 2025 ''CO'', holidaysUrl 2025 ''CO'']
   \<and> sleeps (snd (fetchWithRetry (holidaysUrl 2025 ''CO'') 2 flakyWorld)) = [1000, 2000]"
    using p [THEN conjunct1] by (simp add: flakyWorld_def tryBody_def ok_def)
  have b: "\<exists>e. tryBody (network flakyWorld 0 (holidaysUrl 2025 ''CO'')) = Inl e"
    using p [THEN conjunct2, THEN conjunct2, rule_format,
        of "network flakyWorld 0 (holidaysUrl 2025 ''CO'')"]
    by (simp add: flakyWorld_def ok_def)
  show ?thesis using a b by (intro conjI) simp_all
qed


section \<open>getHolidays\<close>

lemma getFromCache_miss:
  assumes "getFromCache key ttl w = (None, w1)"
  shows "cache w1 key = None" and "requests w1 = requests w" and "sleeps w1 = sleeps w"
    and "network w1 = network w" and "latency w1 = latency w" and "tzdata w1 = tzdata w"
    and "console w1 = console w" and "clock w1 = clock w"
    and "\<And>k. k \<noteq> key \<Longrightarrow> cache w1 k = cache w k"
  using assms
  by (auto simp: getFromCache_def Let_def split: option.splits if_splits)

lemma getFromCache_hit:
  "cache w key = Some entry \<Longrightarrow> clock w - timestamp entry \<le> ttl \<Longrightarrow>
   getFromCache key ttl w = (Some (data entry), w)"
  by (simp add: getFromCache_def Let_def)

lemma fetchWithRetry_failed:
  assumes "tryBody (network w (length (requests w)) url) = Inl e0"
    and "tryBody (network w (length (requests w) + 1) url) = Inl e1"
    and "tryBody (network w (length (requests w) + 2) url) = Inl e2"
  shows "fst (fetchWithRetry url 2 w) = Inl (Some e2)"
    and "requests (snd (fetchWithRetry url 2 w)) = requests w @ [url, url, url]"
    and "sleeps (snd (fetchWithRetry url 2 w)) = sleeps w @ [1000, 2000]"
  using fetchWithRetry_cases [where w = w and url = url] assms by simp_all

lemma getHolidays_miss_failed:
  assumes miss: "getFromCache (getCacheKey ''holidays'' [code, number_toString yr])
                   CACHE_TTL_HOLIDAYS w = (None, w1)"
    and fail: "fetchWithRetry (holidaysUrl yr code) 2 w1 = (Inl e, w2)"
  shows "getHolidays code yr w =
           ([], consoleError (''Error fetching holidays for '' @ code @ '':'') e w2)"
  using assms by (simp add: getHolidays_def Let_def)

lemma getHolidays_miss_fetched:
  assumes miss: "getFromCache (getCacheKey ''holidays'' [code, number_toString yr])
                   CACHE_TTL_HOLIDAYS w = (None, w1)"
    and fetched: "fetchWithRetry (holidaysUrl yr code) 2 w1 = (Inr (JsonArray elems), w2)"
    and normal: "dataMap elems = Inr hs"
  shows "getHolidays code yr w =
           (hs, setCache (getCacheKey ''holidays'' [code, number_toString yr]) hs w2)"
  using assms by (simp add: getHolidays_def Let_def)

lemma getHolidays_hit:
  assumes "cache w (getCacheKey ''holidays'' [code, number_toString yr]) = Some entry"
    and "clock w - timestamp entry \<le> CACHE_TTL_HOLIDAYS"
  shows "getHolidays code yr w = (data entry, w)"
  using getFromCache_hit [OF assms] by (simp add: getHolidays_def Let_def)

text \<open>
  C4. On a cache miss, when all three attempts on the holiday source fail, getHolidays
  returns the empty list: nothing is thrown, nothing is cached under the key, the three
  requests made are those of the retry policy, and the last error is logged.
\<close>

theorem getHolidays_soft_fail:
  assumes miss: "fst (getFromCache (getCacheKey ''holidays'' [code, number_toString yr])
                   CACHE_TTL_HOLIDAYS w) = None"
    and f0: "tryBody (network w (length (requests w)) (holidaysUrl yr code)) = Inl e0"
    and f1: "tryBody (network w (length (requests w) + 1) (holidaysUrl yr code)) = Inl e1"
    and f2: "tryBody (network w (length (requests w) + 2) (holidaysUrl yr code)) = Inl e2"
  shows "fst (getHolidays code yr w) = []
    \<and> cache (snd (getHolidays code yr w)) (getCacheKey ''holidays'' [code, number_toString yr]) = None
    \<and> requests (snd (getHolidays code yr w))
         = requests w @ [holidaysUrl yr code, holidaysUrl yr code, holidaysUrl yr code]
    \<and> console (snd (getHolidays code yr w))
         = console w @ [(''Error fetching holidays for '' @ code @ '':'', Some e2)]"
proof -
  let ?key = "getCacheKey ''holidays'' [code, number_toString yr]"
  let ?url = "holidaysUrl yr code"
  obtain w1 where m: "getFromCache ?key CACHE_TTL_HOLIDAYS w = (None, w1)"
    using miss by (cases "getFromCache ?key CACHE_TTL_HOLIDAYS w") simp
  note w1 = getFromCache_miss [OF m]
  have f0': "tryBody (network w1 (length (requests w1)) ?url) = Inl e0"
    and f1': "tryBody (network w1 (length (requests w1) + 1) ?url) = Inl e1"
    and f2': "tryBody (network w1 (length (requests w1) + 2) ?url) = Inl e2"
    using f0 f1 f2 by (simp_all add: w1)
  note ff = fetchWithRetry_failed [OF f0' f1' f2']
  obtain w2 where f: "fetchWithRetry ?url 2 w1 = (Inl (Some e2), w2)"
    using ff(1) by (cases "fetchWithRetry ?url 2 w1") simp
  have w2: "requests w2 = requests w @ [?url, ?url, ?url]" "cache w2 = cache w1"
    "console w2 = console w"
    using ff(2) fetchWithRetry_frame(1,5) [of ?url 2 w1] by (simp_all add: f w1)
  show ?thesis
    unfolding getHolidays_miss_failed [OF m f]
    by (simp add: consoleError_def w2 w1(1))
qed

theorem getHolidays_soft_fail_witness:
  "fst (getHolidays ''XX'' 2025 (offlineWorld :: (holiday list, holiday holidays_body) world)) = []
   \<and> console (snd (getHolidays ''XX'' 2025
          (offlineWorld :: (holiday list, holiday holidays_body) world)))
        = [(''Error fetching holidays for XX:'', Some (FetchFailed ''fetch failed''))]"
proof -
  let ?w = "offlineWorld :: (holiday list, holiday holidays_body) world"
  have m: "fst (getFromCache (getCacheKey ''holidays'' [''XX'', number_toString 2025])
                   CACHE_TTL_HOLIDAYS ?w) = None"
    by (simp add: getFromCache_def offlineWorld_def)
  have f: "tryBody (network ?w k (holidaysUrl 2025 ''XX'')) = Inl (FetchFailed ''fetch failed'')"
    for k
    by (simp add: offlineWorld_def tryBody_def)
  show ?thesis
    using getHolidays_soft_fail [OF m f f f] by (simp add: offlineWorld_def)
qed

lemma fetchWithRetry_requests:
  "\<exists>n\<le>3. requests (snd (fetchWithRetry url 2 w)) = requests w @ replicate n url"
proof -
  have "requests (snd (fetchWithRetry url 2 w)) = requests w @ replicate 1 url
      \<or> requests (snd (fetchWithRetry url 2 w)) = requests w @ replicate 2 url
      \<or> requests (snd (fetchWithRetry url 2 w)) = requests w @ replicate 3 url"
    using fetchWithRetry_cases [where w = w and url = url]
    by (simp add: numeral_2_eq_2 numeral_3_eq_3 split: sum.splits)
  then show ?thesis
  proof (elim disjE)
    assume a: "requests (snd (fetchWithRetry url 2 w)) = requests w @ replicate 1 url"
    show ?thesis by (rule exI [of _ 1]) (simp add: a)
  next
    assume a: "requests (snd (fetchWithRetry url 2 w)) = requests w @ replicate 2 url"
    show ?thesis by (rule exI [of _ 2]) (simp add: a)
  next
    assume a: "requests (snd (fetchWithRetry url 2 w)) = requests w @ replicate 3 url"
    show ?thesis by (rule exI [of _ 3]) (simp add: a)
  qed
qed

lemma getHolidays_requests:
  "\<exists>n\<le>3. requests (snd (getHolidays code yr w)) = requests w @ replicate n (holidaysUrl yr code)"
proof -
  let ?key = "getCacheKey ''holidays'' [code, number_toString yr]"
  let ?url = "holidaysUrl yr code"
  obtain c w1 where g: "getFromCache ?key CACHE_TTL_HOLIDAYS w = (c, w1)"
    by (cases "getFromCache ?key CACHE_TTL_HOLIDAYS w")
  show ?thesis
  proof (cases c)
    case (Some hs)
    then have "getHolidays code yr w = (hs, w)"
      using g by (auto simp: getHolidays_def getFromCache_def Let_def split: option.splits if_splits)
    then have "requests (snd (getHolidays code yr w)) = requests w @ replicate 0 ?url" by simp
    then show ?thesis by blast
  next
    case None
    note w1 = getFromCache_miss [OF g [unfolded None]]
    obtain res w2 where f: "fetchWithRetry ?url 2 w1 = (res, w2)"
      by (cases "fetchWithRetry ?url 2 w1")
    have "requests (snd (getHolidays code yr w)) = requests w2"
      using g None f
      by (simp add: getHolidays_def Let_def consoleError_def setCache_def
          split: sum.splits holidays_body.splits)
    then show ?thesis
      using fetchWithRetry_requests [of ?url w1] f by (simp add: w1)
  qed
qed

text \<open>
  C5. With the primary holiday source answering 503 for \<^verbatim>\<open>XX\<close> and every other URL
  ready to deliver a list, getHolidays returns the empty list after its three requests to
  the primary source; it requests nothing else.
\<close>

theorem getHolidays_no_secondary_provider:
  "fst (getHolidays ''XX'' 2025 primaryDownWorld) = []
   \<and> requests (snd (getHolidays ''XX'' 2025 primaryDownWorld))
        = [holidaysUrl 2025 ''XX'', holidaysUrl 2025 ''XX'', holidaysUrl 2025 ''XX'']
   \<and> holidaysUrl 2025 ''XX'' = ''https://date.nager.at/api/v3/PublicHolidays/2025/XX''
   \<and> tryBody (network primaryDownWorld 3
         ''https://calendarific.com/api/v2/holidays?api_key=KEY&country=XX&year=2025'')
       = Inr (JsonArray exPayload)"
  by code_simp


text \<open>
  C7 (as stated). With the network down, a first call fails and caches nothing, and a
  second call three seconds later, far inside the 24 hours, makes three more requests.
\<close>

theorem getHolidays_twice_counterexample:
  "length (requests (snd (getHolidays ''XX'' 2025
       (offlineWorld :: (holiday list, holiday holidays_body) world)))) = 3
   \<and> length (requests (snd (getHolidays ''XX'' 2025 (snd (getHolidays ''XX'' 2025
       (offlineWorld :: (holiday list, holiday holidays_body) world)))))) = 6
   \<and> clock (snd (getHolidays ''XX'' 2025
       (offlineWorld :: (holiday list, holiday holidays_body) world)))
       - clock (offlineWorld :: (holiday list, holiday holidays_body) world)
     \<le> CACHE_TTL_HOLIDAYS"
  by code_simp

text \<open>
  C7 (amended). When the first call misses the cache and its fetch delivers a list that
  normalises, the call returns that list and stores it with the time of insertion; a
  second call in any later world that still holds the entry, at most 24 hours after the
  insertion, returns the same list and changes nothing: it issues no request.
\<close>

theorem getHolidays_served_from_cache:
  assumes miss: "getFromCache (getCacheKey ''holidays'' [code, number_toString yr])
                   CACHE_TTL_HOLIDAYS w = (None, w1)"
    and fetched: "fetchWithRetry (holidaysUrl yr code) 2 w1 = (Inr (JsonArray elems), w2)"
    and normal: "dataMap elems = Inr hs"
    and kept: "cache w' (getCacheKey ''holidays'' [code, number_toString yr])
                 = cache (snd (getHolidays code yr w)) (getCacheKey ''holidays'' [code, number_toString yr])"
    and within: "clock w' - clock w2 \<le> CACHE_TTL_HOLIDAYS"
  shows "fst (getHolidays code yr w) = hs
    \<and> requests (snd (getHolidays code yr w)) = requests w2
    \<and> getHolidays code yr w' = (hs, w')"
proof -
  let ?key = "getCacheKey ''holidays'' [code, number_toString yr]"
  have first: "getHolidays code yr w = (hs, setCache ?key hs w2)"
    by (rule getHolidays_miss_fetched [OF miss fetched normal])
  have entry: "cache w' ?key = Some \<lparr>data = hs, timestamp = clock w2\<rparr>"
    using kept by (simp add: first setCache_def)
  have "getHolidays code yr w' = (data \<lparr>data = hs, timestamp = clock w2\<rparr>, w')"
    by (rule getHolidays_hit [OF entry]) (simp add: within)
  then show ?thesis by (simp add: first setCache_def)
qed

lemma flaky_fetch_clock:
  "clock (snd (fetchWithRetry (holidaysUrl 2025 ''CO'') 2 flakyWorld)) = 1700000003120"
  by code_simp

theorem getHolidays_served_from_cache_witness:
  "fst (getHolidays ''CO'' 2025 flakyWorld)
     = [\<lparr>date = ''2025-01-01'', name = ''Ano Nuevo'', localName = Some ''Ano Nuevo'',
          countryCode = Some ''CO''\<rparr>]
   \<and> length (requests (snd (getHolidays ''CO'' 2025 flakyWorld))) = 3
   \<and> getHolidays ''CO'' 2025 ((snd (getHolidays ''CO'' 2025 flakyWorld))\<lparr>clock := 1700086403120\<rparr>)
     = ([\<lparr>date = ''2025-01-01'', name = ''Ano Nuevo'', localName = Some ''Ano Nuevo'',
           countryCode = Some ''CO''\<rparr>],
        (snd (getHolidays ''CO'' 2025 flakyWorld))\<lparr>clock := 1700086403120\<rparr>)"
proof -
  let ?url = "holidaysUrl 2025 ''CO''"
  let ?key = "getCacheKey ''holidays'' [''CO'', number_toString 2025]"
  let ?hs = "[\<lparr>date = ''2025-01-01'', name = ''Ano Nuevo'', localName = Some ''Ano Nuevo'',
          countryCode = Some ''CO''\<rparr>]"
  let ?w' = "(snd (getHolidays ''CO'' 2025 flakyWorld))\<lparr>clock := 1700086403120\<rparr>"
  have m: "getFromCache ?key CACHE_TTL_HOLIDAYS flakyWorld = (None, flakyWorld)"
    by (simp add: getFromCache_def flakyWorld_def)
  have "fst (fetchWithRetry ?url 2 flakyWorld) = Inr (JsonArray exPayload)"
    and r: "requests (snd (fetchWithRetry ?url 2 flakyWorld)) = [?url, ?url, ?url]"
    using fetchWithRetry_cases [where w = flakyWorld and url = ?url]
    by (simp_all add: flakyWorld_def tryBody_def ok_def)
  then have f: "fetchWithRetry ?url 2 flakyWorld
      = (Inr (JsonArray exPayload), snd (fetchWithRetry ?url 2 flakyWorld))"
    by (cases "fetchWithRetry ?url 2 flakyWorld") simp
  have n: "dataMap exPayload = Inr ?hs"
    by (simp add: exPayload_def)
  have k: "cache ?w' ?key = cache (snd (getHolidays ''CO'' 2025 flakyWorld)) ?key"
    by simp
  have t: "clock ?w' - clock (snd (fetchWithRetry ?url 2 flakyWorld)) \<le> CACHE_TTL_HOLIDAYS"
    by (simp add: flaky_fetch_clock CACHE_TTL_HOLIDAYS_def)
  show ?thesis
    using getHolidays_served_from_cache [OF m f n k t] by (simp add: r)
qed


section \<open>getZoneStatus\<close>

lemma find_timeZoneName:
  "find (\<lambda>p. fst p = ''timeZoneName'')
     [(''month'', m), (''literal'', l1), (''day'', d), (''literal'', l2), (''year'', y),
      (''literal'', l3), (''timeZoneName'', n)] = Some (''timeZoneName'', n)"
  by simp

lemma localFallback_eq:
  "localFallback z key w =
     (case tzdata w z (clock w) of
        None \<Rightarrow>
          (None, consoleError (''Error getting zone status for '' @ z @ '':'') (Some RangeError) w)
      | Some t \<Rightarrow>
          (Some \<lparr>zone = z, utc_offset = replace ''GMT'' '''' (longOffsetName t),
                  dst = False\<rparr>,
           setCache key
             \<lparr>zone = z, utc_offset = replace ''GMT'' '''' (longOffsetName t),
               dst = False\<rparr> w))"
  by (simp add: localFallback_def formatToParts_def find_timeZoneName Let_def
      split: option.splits)

lemma getZoneStatus_miss_failed:
  assumes "getFromCache (getCacheKey ''zone'' [z]) CACHE_TTL_TIMEZONES w = (None, w1)"
    and "fetchWithRetry (zoneUrl z) 2 w1 = (Inl e, w2)"
  shows "getZoneStatus z w = localFallback z (getCacheKey ''zone'' [z]) w2"
  using assms by (simp add: getZoneStatus_def Let_def)

lemma filterValid_Some: "map Some (filterValid statuses) = filter (\<lambda>s. s \<noteq> None) statuses"
  by (induction statuses) (auto simp: filterValid_def)

text \<open>
  C8. On a cache miss, when fetchWithRetry on the time service throws, getZoneStatus
  computes locally: for a zone the runtime knows it returns the zone with the offset read
  off the runtime's \<^verbatim>\<open>longOffset\<close> name and \<open>dst = False\<close>; for a zone the runtime does
  not know it returns absent, and throws nothing. In a result of compareCountries the
  zone statuses of each side are the settled statuses that are not absent, in order.
\<close>

theorem getZoneStatus_fallback:
  "(getFromCache (getCacheKey ''zone'' [z]) CACHE_TTL_TIMEZONES w = (None, w1)
      \<and> fetchWithRetry (zoneUrl z) 2 w1 = (Inl e, w2) \<longrightarrow>
      (case tzdata w2 z (clock w2) of
         None \<Rightarrow> fst (getZoneStatus z w) = None
       | Some t \<Rightarrow>
           fst (getZoneStatus z w) =
             Some \<lparr>zone = z, utc_offset = replace ''GMT'' '''' (longOffsetName t),
                    dst = False\<rparr>))
   \<and> (compareCountries cA cB yr hsA hsB sA sB = Inr r
        \<and> getTimezones cA = ZoneArray zsA \<and> getTimezones cB = ZoneArray zsB \<longrightarrow>
        map Some (tzA (timezones r)) = filter (\<lambda>s. s \<noteq> None) (awaitStatuses sA zsA)
      \<and> map Some (tzB (timezones r)) = filter (\<lambda>s. s \<noteq> None) (awaitStatuses sB zsB))"
proof (intro conjI impI)
  assume a: "getFromCache (getCacheKey ''zone'' [z]) CACHE_TTL_TIMEZONES w = (None, w1)
      \<and> fetchWithRetry (zoneUrl z) 2 w1 = (Inl e, w2)"
  show "case tzdata w2 z (clock w2) of
         None \<Rightarrow> fst (getZoneStatus z w) = None
       | Some t \<Rightarrow>
           fst (getZoneStatus z w) =
             Some \<lparr>zone = z, utc_offset = replace ''GMT'' '''' (longOffsetName t),
                    dst = False\<rparr>"
    using a by (simp add: getZoneStatus_miss_failed localFallback_eq split: option.splits)
next
  assume b: "compareCountries cA cB yr hsA hsB sA sB = Inr r
        \<and> getTimezones cA = ZoneArray zsA \<and> getTimezones cB = ZoneArray zsB"
  then show "map Some (tzA (timezones r)) = filter (\<lambda>s. s \<noteq> None) (awaitStatuses sA zsA)"
    using compareCountries_Inr [of cA cB yr hsA hsB sA sB r] by (auto simp: filterValid_Some)
next
  assume b: "compareCountries cA cB yr hsA hsB sA sB = Inr r
        \<and> getTimezones cA = ZoneArray zsA \<and> getTimezones cB = ZoneArray zsB"
  then show "map Some (tzB (timezones r)) = filter (\<lambda>s. s \<noteq> None) (awaitStatuses sB zsB)"
    using compareCountries_Inr [of cA cB yr hsA hsB sA sB r] by (auto simp: filterValid_Some)
qed

lemma denver_offset: "replace ''GMT'' '''' ''GMT-07:00'' = ''-07:00''"
  by code_simp

lemma timeServiceDown_fetch:
  "fetchWithRetry url 2 timeServiceDownWorld
     = (Inl (Some (FetchFailed ''fetch failed'')), snd (fetchWithRetry url 2 timeServiceDownWorld))"
proof -
  have f: "tryBody (network timeServiceDownWorld k url) = Inl (FetchFailed ''fetch failed'')" for k
    by (simp add: timeServiceDownWorld_def tryBody_def)
  have "fst (fetchWithRetry url 2 timeServiceDownWorld) = Inl (Some (FetchFailed ''fetch failed''))"
    by (rule fetchWithRetry_failed(1) [OF f f f])
  then show ?thesis by (cases "fetchWithRetry url 2 timeServiceDownWorld") simp
qed

lemma timeServiceDown_miss:
  "getFromCache key ttl timeServiceDownWorld = (None, timeServiceDownWorld)"
  by (simp add: getFromCache_def timeServiceDownWorld_def)

lemma timeServiceDown_tzdata:
  "tzdata (snd (fetchWithRetry url 2 timeServiceDownWorld)) = tzdata timeServiceDownWorld"
  by (rule fetchWithRetry_frame)

lemma ex_statuses_US:
  "length (filter (\<lambda>s. s \<noteq> None) (awaitStatuses exSettledUS
     [''America/New_York'', ''America/Detroit'', ''America/Kentucky/Louisville'',
      ''America/Kentucky/Monticello'', ''America/Indiana/Indianapolis'',
      ''America/Indiana/Vincennes'', ''America/Indiana/Winamac'', ''America/Indiana/Marengo'',
      ''America/Indiana/Petersburg'', ''America/Indiana/Vevay'', ''America/Chicago'',
      ''America/Indiana/Tell_City'', ''America/Indiana/Knox'', ''America/Menominee'',
      ''America/North_Dakota/Center'', ''America/North_Dakota/New_Salem'',
      ''America/North_Dakota/Beulah'', ''America/Denver'', ''America/Boise'', ''America/Phoenix'',
      ''America/Los_Angeles'', ''America/Anchorage'', ''America/Juneau'', ''America/Sitka'',
      ''America/Metlakatla'', ''America/Yakutat'', ''America/Nome'', ''America/Adak'',
      ''Pacific/Honolulu''])) = 3"
  by code_simp

theorem getZoneStatus_fallback_witness:
  "fst (getZoneStatus ''America/Denver'' timeServiceDownWorld)
     = Some \<lparr>zone = ''America/Denver'', utc_offset = ''-07:00'', dst = False\<rparr>
   \<and> fst (getZoneStatus ''Mars/Olympus_Mons'' timeServiceDownWorld) = None
   \<and> (\<exists>r. compareCountries ''US'' ''CO'' 2025 exHolidaysUS exHolidaysCO exSettledUS exSettledCO = Inr r
          \<and> length (tzA (timezones r)) = 3)"
proof -
  have d: "fst (getZoneStatus ''America/Denver'' timeServiceDownWorld)
     = Some \<lparr>zone = ''America/Denver'', utc_offset = ''-07:00'', dst = False\<rparr>"
    using getZoneStatus_fallback [where z = "''America/Denver''" and w = timeServiceDownWorld
        and ?w1.0 = timeServiceDownWorld
        and ?w2.0 = "snd (fetchWithRetry (zoneUrl ''America/Denver'') 2 timeServiceDownWorld)"
        and e = "Some (FetchFailed ''fetch failed'')", THEN conjunct1]
      timeServiceDown_fetch [of "zoneUrl ''America/Denver''"]
      timeServiceDown_miss [of "getCacheKey ''zone'' [''America/Denver'']" CACHE_TTL_TIMEZONES]
    by (simp add: timeServiceDown_tzdata denver_offset) (simp add: timeServiceDownWorld_def denver_offset)
  have m: "fst (getZoneStatus ''Mars/Olympus_Mons'' timeServiceDownWorld) = None"
    using getZoneStatus_fallback [where z = "''Mars/Olympus_Mons''" and w = timeServiceDownWorld
        and ?w1.0 = timeServiceDownWorld
        and ?w2.0 = "snd (fetchWithRetry (zoneUrl ''Mars/Olympus_Mons'') 2 timeServiceDownWorld)"
        and e = "Some (FetchFailed ''fetch failed'')", THEN conjunct1]
      timeServiceDown_fetch [of "zoneUrl ''Mars/Olympus_Mons''"]
      timeServiceDown_miss [of "getCacheKey ''zone'' [''Mars/Olympus_Mons'']" CACHE_TTL_TIMEZONES]
    by (simp add: timeServiceDown_tzdata) (simp add: timeServiceDownWorld_def)
  have "\<exists>r. compareCountries ''US'' ''CO'' 2025 exHolidaysUS exHolidaysCO exSettledUS exSettledCO
      = Inr r"
    by (rule compareCountries_total [OF getTimezones_US getTimezones_CO])
  then obtain r where r:
    "compareCountries ''US'' ''CO'' 2025 exHolidaysUS exHolidaysCO exSettledUS exSettledCO = Inr r" ..
  have "length (map Some (tzA (timezones r))) = 3"
    using getZoneStatus_fallback [where cA = "''US''" and cB = "''CO''" and yr = 2025
        and hsA = exHolidaysUS and hsB = exHolidaysCO and sA = exSettledUS and sB = exSettledCO
        and r = r, THEN conjunct2, rule_format, OF conjI [OF r conjI [OF getTimezones_US getTimezones_CO]],
        THEN conjunct1]
    by (simp only: ex_statuses_US)
  then have l: "length (tzA (timezones r)) = 3" by simp
  show ?thesis
    by (intro conjI d m exI [of _ r] r l)
qed


section \<open>The format of utc_offset\<close>











section \<open>getTimezones\<close>

lemma two_letter_code_not_inherited:
  "length code = 2 \<Longrightarrow> code \<notin> set objectPrototypeMembers"
  by (auto simp: objectPrototypeMembers_def)

lemma getTimezones_not_inherited:
  "code \<notin> set objectPrototypeMembers \<Longrightarrow>
   getTimezones code = ZoneArray (case map_of COUNTRY_TIMEZONES code of Some zs \<Rightarrow> zs | None \<Rightarrow> [])"
  by (simp add: getTimezones_def split: option.splits)

lemma overlaps_empty_A: "compareOffsets [] ssB = \<lparr>hasOverlap = False, overlaps = []\<rparr>"
  by (simp add: compareOffsets_def Let_def entries_def)

lemma overlaps_empty_B: "compareOffsets ssA [] = \<lparr>hasOverlap = False, overlaps = []\<rparr>"
  using overlaps_eq [of ssA "[]"] compareOffsets_overlaps [of ssA "[]"]
  by (cases "compareOffsets ssA []") simp

lemma compareCountries_own_codes:
  assumes "cA \<notin> set objectPrototypeMembers" and "cB \<notin> set objectPrototypeMembers"
  shows "(\<exists>zs. getTimezones cA = ZoneArray zs)
    \<and> (map_of COUNTRY_TIMEZONES cA = None \<longrightarrow> getTimezones cA = ZoneArray [])
    \<and> (\<exists>r. compareCountries cA cB yr hsA hsB sA sB = Inr r
          \<and> (map_of COUNTRY_TIMEZONES cA = None \<longrightarrow>
                tzA (timezones r) = [] \<and> overlaps (commonOffsetNow (timezones r)) = []
                \<and> \<not> hasOverlap (commonOffsetNow (timezones r)))
          \<and> (map_of COUNTRY_TIMEZONES cB = None \<longrightarrow>
                tzB (timezones r) = [] \<and> overlaps (commonOffsetNow (timezones r)) = []
                \<and> \<not> hasOverlap (commonOffsetNow (timezones r))))"
proof -
  let ?zsA = "case map_of COUNTRY_TIMEZONES cA of Some zs \<Rightarrow> zs | None \<Rightarrow> []"
  let ?zsB = "case map_of COUNTRY_TIMEZONES cB of Some zs \<Rightarrow> zs | None \<Rightarrow> []"
  have a: "getTimezones cA = ZoneArray ?zsA" and b: "getTimezones cB = ZoneArray ?zsB"
    by (rule getTimezones_not_inherited [OF assms(1)], rule getTimezones_not_inherited [OF assms(2)])
  obtain r where r: "compareCountries cA cB yr hsA hsB sA sB = Inr r"
    using compareCountries_total [OF a b] by blast
  obtain zsA zsB where z: "getTimezones cA = ZoneArray zsA" "getTimezones cB = ZoneArray zsB"
    and ta: "tzA (timezones r) = filterValid (awaitStatuses sA zsA)"
    and tb: "tzB (timezones r) = filterValid (awaitStatuses sB zsB)"
    using compareCountries_Inr [OF r] by blast
  have c: "commonOffsetNow (timezones r) = compareOffsets (tzA (timezones r)) (tzB (timezones r))"
    by (rule compareCountries_offsets [OF r])
  have za: "zsA = ?zsA" and zb: "zsB = ?zsB" using z a b by simp_all
  have 1: "map_of COUNTRY_TIMEZONES cA = None \<longrightarrow>
                tzA (timezones r) = [] \<and> overlaps (commonOffsetNow (timezones r)) = []
                \<and> \<not> hasOverlap (commonOffsetNow (timezones r))"
  proof
    assume n: "map_of COUNTRY_TIMEZONES cA = None"
    have e: "tzA (timezones r) = []"
      by (simp add: ta za n awaitStatuses_def filterValid_def)
    show "tzA (timezones r) = [] \<and> overlaps (commonOffsetNow (timezones r)) = []
                \<and> \<not> hasOverlap (commonOffsetNow (timezones r))"
      by (simp add: c e overlaps_empty_A)
  qed
  have 2: "map_of COUNTRY_TIMEZONES cB = None \<longrightarrow>
                tzB (timezones r) = [] \<and> overlaps (commonOffsetNow (timezones r)) = []
                \<and> \<not> hasOverlap (commonOffsetNow (timezones r))"
  proof
    assume n: "map_of COUNTRY_TIMEZONES cB = None"
    have e: "tzB (timezones r) = []"
      by (simp add: tb zb n awaitStatuses_def filterValid_def)
    show "tzB (timezones r) = [] \<and> overlaps (commonOffsetNow (timezones r)) = []
                \<and> \<not> hasOverlap (commonOffsetNow (timezones r))"
      by (simp add: c e overlaps_empty_B)
  qed
  have 3: "map_of COUNTRY_TIMEZONES cA = None \<longrightarrow> getTimezones cA = ZoneArray []"
    using a by simp
  have e1: "\<exists>zs. getTimezones cA = ZoneArray zs"
    by (rule exI [of _ ?zsA]) (rule a)
  have e3: "\<exists>r. compareCountries cA cB yr hsA hsB sA sB = Inr r
          \<and> (map_of COUNTRY_TIMEZONES cA = None \<longrightarrow>
                tzA (timezones r) = [] \<and> overlaps (commonOffsetNow (timezones r)) = []
                \<and> \<not> hasOverlap (commonOffsetNow (timezones r)))
          \<and> (map_of COUNTRY_TIMEZONES cB = None \<longrightarrow>
                tzB (timezones r) = [] \<and> overlaps (commonOffsetNow (timezones r)) = []
                \<and> \<not> hasOverlap (commonOffsetNow (timezones r)))"
    by (rule exI [of _ r]) (intro conjI r 1 2)
  show ?thesis
    by (intro conjI e1 3 e3)
qed

text \<open>
  C10. For every country code of two characters, which are the codes the router admits,
  getTimezones returns a list, the empty one when the table has no entry for the code;
  and compareCountries on two such codes returns a result, in which a side whose code has
  no entry has no zone statuses, and then \<open>overlaps\<close> is empty and \<open>hasOverlap\<close> false.
\<close>

theorem getTimezones_total:
  assumes "length cA = 2" and "length cB = 2"
  shows "(\<exists>zs. getTimezones cA = ZoneArray zs)
    \<and> (map_of COUNTRY_TIMEZONES cA = None \<longrightarrow> getTimezones cA = ZoneArray [])
    \<and> (\<exists>r. compareCountries cA cB yr hsA hsB sA sB = Inr r
          \<and> (map_of COUNTRY_TIMEZONES cA = None \<longrightarrow>
                tzA (timezones r) = [] \<and> overlaps (commonOffsetNow (timezones r)) = []
                \<and> \<not> hasOverlap (commonOffsetNow (timezones r)))
          \<and> (map_of COUNTRY_TIMEZONES cB = None \<longrightarrow>
                tzB (timezones r) = [] \<and> overlaps (commonOffsetNow (timezones r)) = []
                \<and> \<not> hasOverlap (commonOffsetNow (timezones r))))"
  by (rule compareCountries_own_codes
      [OF two_letter_code_not_inherited [OF assms(1)] two_letter_code_not_inherited [OF assms(2)]])

lemma unknown_XX: "map_of COUNTRY_TIMEZONES ''XX'' = None"
  by code_simp

theorem getTimezones_total_witness:
  "getTimezones ''XX'' = ZoneArray []
   \<and> (\<exists>r. compareCountries ''XX'' ''CO'' 2025 exHolidaysUS exHolidaysCO exSettledUS exSettledCO = Inr r
          \<and> tzA (timezones r) = [] \<and> overlaps (commonOffsetNow (timezones r)) = []
          \<and> hasOverlap (commonOffsetNow (timezones r)) = False)
   \<and> (\<exists>r. compareCountries ''CO'' ''XX'' 2025 exHolidaysCO exHolidaysUS exSettledCO exSettledUS = Inr r
          \<and> tzB (timezones r) = [] \<and> overlaps (commonOffsetNow (timezones r)) = []
          \<and> hasOverlap (commonOffsetNow (timezones r)) = False)"
proof -
  have nx: "length ''XX'' = 2" by simp
  have nc: "length ''CO'' = 2" by simp
  note t = getTimezones_total [OF nx nc, where yr = 2025 and hsA = exHolidaysUS
      and hsB = exHolidaysCO and sA = exSettledUS and sB = exSettledCO]
  have g: "getTimezones ''XX'' = ZoneArray []"
    by (rule t [THEN conjunct2, THEN conjunct1, rule_format, OF unknown_XX])
  from t [THEN conjunct2, THEN conjunct2] obtain r where rr:
    "compareCountries ''XX'' ''CO'' 2025 exHolidaysUS exHolidaysCO exSettledUS exSettledCO = Inr r
      \<and> (map_of COUNTRY_TIMEZONES ''XX'' = None \<longrightarrow>
            tzA (timezones r) = [] \<and> overlaps (commonOffsetNow (timezones r)) = []
            \<and> \<not> hasOverlap (commonOffsetNow (timezones r)))
      \<and> (map_of COUNTRY_TIMEZONES ''CO'' = None \<longrightarrow>
            tzB (timezones r) = [] \<and> overlaps (commonOffsetNow (timezones r)) = []
            \<and> \<not> hasOverlap (commonOffsetNow (timezones r)))" ..
  note x = rr [THEN conjunct2, THEN conjunct1, rule_format, OF unknown_XX]
  have h: "hasOverlap (commonOffsetNow (timezones r)) = False"
    using x by simp
  have first: "\<exists>r. compareCountries ''XX'' ''CO'' 2025 exHolidaysUS exHolidaysCO exSettledUS
        exSettledCO = Inr r
      \<and> tzA (timezones r) = [] \<and> overlaps (commonOffsetNow (timezones r)) = []
      \<and> hasOverlap (commonOffsetNow (timezones r)) = False"
    by (intro conjI exI [of _ r] rr [THEN conjunct1] x [THEN conjunct1]
        x [THEN conjunct2, THEN conjunct1] h)
  note u = getTimezones_total [OF nc nx, where yr = 2025 and hsA = exHolidaysCO
      and hsB = exHolidaysUS and sA = exSettledCO and sB = exSettledUS]
  from u [THEN conjunct2, THEN conjunct2] obtain q where qq:
    "compareCountries ''CO'' ''XX'' 2025 exHolidaysCO exHolidaysUS exSettledCO exSettledUS = Inr q
      \<and> (map_of COUNTRY_TIMEZONES ''CO'' = None \<longrightarrow>
            tzA (timezones q) = [] \<and> overlaps (commonOffsetNow (timezones q)) = []
            \<and> \<not> hasOverlap (commonOffsetNow (timezones q)))
      \<and> (map_of COUNTRY_TIMEZONES ''XX'' = None \<longrightarrow>
            tzB (timezones q) = [] \<and> overlaps (commonOffsetNow (timezones q)) = []
            \<and> \<not> hasOverlap (commonOffsetNow (timezones q)))" ..
  note y = qq [THEN conjunct2, THEN conjunct2, rule_format, OF unknown_XX]
  have k: "hasOverlap (commonOffsetNow (timezones q)) = False"
    using y by simp
  have second: "\<exists>r. compareCountries ''CO'' ''XX'' 2025 exHolidaysCO exHolidaysUS exSettledCO
        exSettledUS = Inr r
      \<and> tzB (timezones r) = [] \<and> overlaps (commonOffsetNow (timezones r)) = []
      \<and> hasOverlap (commonOffsetNow (timezones r)) = False"
    by (intro conjI exI [of _ q] qq [THEN conjunct1] y [THEN conjunct1]
        y [THEN conjunct2, THEN conjunct1] k)
  show ?thesis
    by (intro conjI g first second)
qed


end
